theory Spec2Isabelle
  imports Main "HOL-Library.Word" "HOL-Library.AList"
begin

section \<open>JavaScript values\<close>

text \<open>
  A JavaScript string is a sequence of 16-bit code units; \<open>length\<close> is the
  \<^verbatim>\<open>.length\<close> of the source. \<open>js\<close> turns an ASCII literal of the source into
  such a string.
\<close>

type_synonym jsstring = "16 word list"

definition js :: "string \<Rightarrow> jsstring" where
  "js s = map of_char s"

text \<open>
  The values a field of a parsed request body can hold. The handlers only ever ask a
  field for its truthiness, its string conversion, and its \<^verbatim>\<open>trim\<close> and
  \<^verbatim>\<open>replace\<close> methods, which only strings have. \<open>JOther t s\<close> is any value that
  is neither \<^verbatim>\<open>undefined\<close>, \<^verbatim>\<open>null\<close> nor a string (a boolean, a number, an array,
  an object): \<open>t\<close> is its truthiness and \<open>s\<close> its string conversion. The number
  \<^verbatim>\<open>5\<close> is \<open>JOther True (js ''5'')\<close>, \<^verbatim>\<open>0\<close> is \<open>JOther False (js ''0'')\<close>.
  \<open>JOpaque\<close> is an object that has no string conversion: the nested object that a
  multipart field named \<^verbatim>\<open>jobTitle[x]\<close> becomes (it has no prototype), or the JSON value
  \<^verbatim>\<open>{"toString": 1}\<close>. It is truthy, like every object, and converting it to a string
  throws a \<^verbatim>\<open>TypeError\<close>.
\<close>

datatype jsval = JUndefined | JNull | JStr jsstring | JOther bool jsstring | JOpaque

fun truthy :: "jsval \<Rightarrow> bool" where
  "truthy JUndefined = False"
| "truthy JNull = False"
| "truthy (JStr s) = (s \<noteq> [])"
| "truthy (JOther t s) = t"
| "truthy JOpaque = True"

text \<open>
  What a \<^verbatim>\<open>try\<close> block can catch: the \<^verbatim>\<open>TypeError\<close> of calling a method the value
  does not have (the callee as the source writes it), the \<^verbatim>\<open>TypeError\<close> of converting an
  object without string conversion, and the rejection of a send.
\<close>

datatype exn = NotAFunction string | NoPrimitive | SendFailed jsstring

fun message :: "exn \<Rightarrow> jsstring" where
  "message (NotAFunction callee) = js (callee @ '' is not a function'')"
| "message NoPrimitive = js ''Cannot convert object to primitive value''"
| "message (SendFailed m) = m"

text \<open>The string conversion that template literals and \<^verbatim>\<open>test\<close> apply to a value.\<close>

fun ToString :: "jsval \<Rightarrow> exn + jsstring" where
  "ToString JUndefined = Inr (js ''undefined'')"
| "ToString JNull = Inr (js ''null'')"
| "ToString (JStr s) = Inr s"
| "ToString (JOther t s) = Inr s"
| "ToString JOpaque = Inl NoPrimitive"

text \<open>
  A template literal: its literal pieces and its substitutions, converted and joined
  from left to right; the first conversion that throws ends the evaluation.
\<close>

datatype part = Lit jsstring | Sub jsval

fun template :: "part list \<Rightarrow> exn + jsstring" where
  "template [] = Inr []"
| "template (Lit s # ps) =
     (case template ps of Inl e \<Rightarrow> Inl e | Inr r \<Rightarrow> Inr (s @ r))"
| "template (Sub v # ps) =
     (case ToString v of
        Inl e \<Rightarrow> Inl e
      | Inr s \<Rightarrow> (case template ps of Inl e \<Rightarrow> Inl e | Inr r \<Rightarrow> Inr (s @ r)))"

text \<open>An object of the request: property lookup, \<^verbatim>\<open>undefined\<close> for a missing key.\<close>

type_synonym jsobject = "string \<Rightarrow> jsval"

definition empty_object :: jsobject where
  "empty_object = (\<lambda>k. JUndefined)"

text \<open>
  An object literal: the listed properties, \<^verbatim>\<open>undefined\<close> elsewhere.
\<close>

definition object_of :: "(string \<times> jsval) list \<Rightarrow> jsobject" where
  "object_of kvs = (\<lambda>k. case map_of kvs k of None \<Rightarrow> JUndefined | Some v \<Rightarrow> v)"

text \<open>
  \<^verbatim>\<open>process.env\<close>: every variable is a string or is not set.
\<close>

type_synonym environment = "string \<Rightarrow> jsstring option"

definition getenv :: "environment \<Rightarrow> string \<Rightarrow> jsval" where
  "getenv env k = (case env k of None \<Rightarrow> JUndefined | Some s \<Rightarrow> JStr s)"

subsection \<open>Character classes and \<^verbatim>\<open>trim\<close>\<close>

text \<open>
  \<^verbatim>\<open>\s\<close> and \<^verbatim>\<open>trim\<close> use the same set: ECMAScript WhiteSpace and LineTerminator.
\<close>

definition isWhiteSpace :: "16 word \<Rightarrow> bool" where
  "isWhiteSpace c \<longleftrightarrow>
     c \<in> set [0x09, 0x0A, 0x0B, 0x0C, 0x0D, 0x20, 0xA0, 0x1680, 0x2028, 0x2029,
               0x202F, 0x205F, 0x3000, 0xFEFF]
     \<or> (0x2000 \<le> c \<and> c \<le> 0x200A)"

definition isDigit :: "16 word \<Rightarrow> bool" where
  "isDigit c \<longleftrightarrow> 0x30 \<le> c \<and> c \<le> 0x39"

definition trim :: "jsstring \<Rightarrow> jsstring" where
  "trim s = rev (dropWhile isWhiteSpace (rev (dropWhile isWhiteSpace s)))"

text \<open>\<^verbatim>\<open>v.trim()\<close>: only a string has the method.\<close>

fun call_trim :: "string \<Rightarrow> jsval \<Rightarrow> exn + jsstring" where
  "call_trim callee (JStr s) = Inr (trim s)"
| "call_trim callee v = Inl (NotAFunction callee)"

text \<open>
  \<^verbatim>\<open>v?.trim()\<close>: the optional chain stops at \<^verbatim>\<open>undefined\<close> and \<^verbatim>\<open>null\<close> only.
\<close>

fun opt_trim :: "string \<Rightarrow> jsval \<Rightarrow> exn + jsval" where
  "opt_trim callee JUndefined = Inr JUndefined"
| "opt_trim callee JNull = Inr JUndefined"
| "opt_trim callee (JStr s) = Inr (JStr (trim s))"
| "opt_trim callee (JOther t s) = Inl (NotAFunction callee)"
| "opt_trim callee JOpaque = Inl (NotAFunction callee)"

section \<open>Regular expressions\<close>

text \<open>
  The fragment of ECMAScript patterns the source uses: a sequence of terms, each an
  assertion (\<^verbatim>\<open>^\<close>, \<^verbatim>\<open>$\<close>, without the multiline flag) or a quantified atom
  \<^verbatim>\<open>a{lo,hi}\<close>, where \<open>hi = None\<close> is no upper bound. An atom is a character, a
  class escape or a bracketed class.
\<close>

datatype class_atom = ClsChar "16 word" | ClsDigit | ClsSpace

datatype atom =
    Chr "16 word"
  | NonDigit
  | Class "class_atom list"
  | NegClass "class_atom list"

datatype rterm = Bol | Eol | Rep atom nat "nat option"

fun class_atom_ok :: "class_atom \<Rightarrow> 16 word \<Rightarrow> bool" where
  "class_atom_ok (ClsChar x) c = (c = x)"
| "class_atom_ok ClsDigit c = isDigit c"
| "class_atom_ok ClsSpace c = isWhiteSpace c"

fun atom_ok :: "atom \<Rightarrow> 16 word \<Rightarrow> bool" where
  "atom_ok (Chr x) c = (c = x)"
| "atom_ok NonDigit c = (\<not> isDigit c)"
| "atom_ok (Class cs) c = list_ex (\<lambda>a. class_atom_ok a c) cs"
| "atom_ok (NegClass cs) c = (\<not> list_ex (\<lambda>a. class_atom_ok a c) cs)"

text \<open>
  \<open>rmatch ts at0 s\<close>: the terms match some prefix of \<open>s\<close>; \<open>at0\<close> says that \<open>s\<close>
  starts at index 0 of the input. The matcher of the language tries the longest
  repetition first; whether some match exists does not depend on the order.
\<close>

fun rmatch :: "rterm list \<Rightarrow> bool \<Rightarrow> jsstring \<Rightarrow> bool" where
  "rmatch [] at0 s = True"
| "rmatch (Bol # ts) at0 s = (at0 \<and> rmatch ts at0 s)"
| "rmatch (Eol # ts) at0 s = (s = [] \<and> rmatch ts at0 s)"
| "rmatch (Rep a lo hi # ts) at0 s =
     ((lo = 0 \<and> rmatch ts at0 s) \<or>
      (hi \<noteq> Some 0 \<and>
       (case s of
          [] \<Rightarrow> False
        | c # cs \<Rightarrow> atom_ok a c \<and> rmatch (Rep a (lo - 1) (map_option (\<lambda>h. h - 1) hi) # ts) False cs)))"

text \<open>
  \<^verbatim>\<open>re.test(v)\<close> without the g and y flags: the argument is converted to a string,
  and a match may start at any index.
\<close>

fun rsearch :: "rterm list \<Rightarrow> bool \<Rightarrow> jsstring \<Rightarrow> bool" where
  "rsearch ts at0 [] = rmatch ts at0 []"
| "rsearch ts at0 (c # cs) = (rmatch ts at0 (c # cs) \<or> rsearch ts False cs)"

definition test :: "rterm list \<Rightarrow> jsval \<Rightarrow> exn + bool" where
  "test re v = (case ToString v of Inl e \<Rightarrow> Inl e | Inr s \<Rightarrow> Inr (rsearch re True s))"

text \<open>\<^verbatim>\<open>!v || !re.test(v)\<close>: the test runs only on a truthy value.\<close>

definition falsy_or_fails :: "rterm list \<Rightarrow> jsval \<Rightarrow> exn + bool" where
  "falsy_or_fails re v =
     (if \<not> truthy v then Inr True
      else case test re v of Inl e \<Rightarrow> Inl e | Inr b \<Rightarrow> Inr (\<not> b))"

text \<open>
  \<^verbatim>\<open>s.replace(/a/g, r)\<close> for a pattern that is one atom: every code unit the atom
  matches is replaced.
\<close>

definition replace_all :: "atom \<Rightarrow> jsstring \<Rightarrow> jsstring \<Rightarrow> jsstring" where
  "replace_all a r s = concat (map (\<lambda>c. if atom_ok a c then r else [c]) s)"

fun call_replace :: "string \<Rightarrow> jsval \<Rightarrow> atom \<Rightarrow> jsstring \<Rightarrow> exn + jsstring" where
  "call_replace callee (JStr s) a r = Inr (replace_all a r s)"
| "call_replace callee v a r = Inl (NotAFunction callee)"

text \<open>\<^verbatim>\<open>/^[^\s@]+@[^\s@]+\.[^\s@]+$/\<close>\<close>

definition emailRegex :: "rterm list" where
  "emailRegex =
     [Bol,
      Rep (NegClass [ClsSpace, ClsChar 0x40]) 1 None,
      Rep (Chr 0x40) 1 (Some 1),
      Rep (NegClass [ClsSpace, ClsChar 0x40]) 1 None,
      Rep (Chr 0x2E) 1 (Some 1),
      Rep (NegClass [ClsSpace, ClsChar 0x40]) 1 None,
      Eol]"

text \<open>\<^verbatim>\<open>/^\+?[\d\s-()]{10,}$/\<close>\<close>

definition phoneRegex :: "rterm list" where
  "phoneRegex =
     [Bol,
      Rep (Chr 0x2B) 0 (Some 1),
      Rep (Class [ClsDigit, ClsSpace, ClsChar 0x2D, ClsChar 0x28, ClsChar 0x29]) 10 None,
      Eol]"

section \<open>Validators\<close>

record validation =
  isValid :: bool
  errors :: "(string \<times> string) list"

text \<open>
  \<^verbatim>\<open>errors.k = v\<close> on the errors object, whose keys keep their insertion order;
  \<^verbatim>\<open>Object.keys\<close> lists them.
\<close>

definition set_prop :: "string \<Rightarrow> string \<Rightarrow> (string \<times> string) list \<Rightarrow> (string \<times> string) list" where
  "set_prop k v obj = AList.update k v obj"

definition keys :: "(string \<times> string) list \<Rightarrow> string list" where
  "keys obj = map fst obj"

text \<open>\<^verbatim>\<open>if (c) { errors.k = v; }\<close>\<close>

definition set_if ::
  "bool \<Rightarrow> string \<Rightarrow> string \<Rightarrow> (string \<times> string) list \<Rightarrow> (string \<times> string) list" where
  "set_if c k v obj = (if c then set_prop k v obj else obj)"

definition validateJobApplication :: "jsobject \<Rightarrow> exn + validation" where
  "validateJobApplication data =
     (let errors0 = [] in
      case opt_trim ''data.firstName?.trim'' (data ''firstName'') of
        Inl e \<Rightarrow> Inl e
      | Inr fn \<Rightarrow>
     (let errors1 = set_if (\<not> truthy fn)
                      ''firstName'' ''First name is required'' errors0 in
      case opt_trim ''data.lastName?.trim'' (data ''lastName'') of
        Inl e \<Rightarrow> Inl e
      | Inr ln \<Rightarrow>
     (let errors2 = set_if (\<not> truthy ln)
                      ''lastName'' ''Last name is required'' errors1 in
      case falsy_or_fails emailRegex (data ''email'') of
        Inl e \<Rightarrow> Inl e
      | Inr bad_email \<Rightarrow>
     (let errors3 = set_if bad_email ''email'' ''Valid email is required'' errors2 in
      case falsy_or_fails phoneRegex (data ''phone'') of
        Inl e \<Rightarrow> Inl e
      | Inr bad_phone \<Rightarrow>
     (let errors4 = set_if bad_phone ''phone'' ''Valid phone number is required'' errors3
      in Inr \<lparr>isValid = (length (keys errors4) = 0), errors = errors4\<rparr>)))))"

text \<open>
  \<^verbatim>\<open>!v || v.trim().length < n\<close>: the method is called only on a truthy value.
\<close>

definition too_short :: "string \<Rightarrow> jsval \<Rightarrow> nat \<Rightarrow> exn + bool" where
  "too_short callee v n =
     (if \<not> truthy v then Inr True
      else case call_trim callee v of
             Inl e \<Rightarrow> Inl e
           | Inr t \<Rightarrow> Inr (length t < n))"

text \<open>
  The phone block of \<^verbatim>\<open>validateFormInput\<close>: entered only for a truthy value.
\<close>

definition check_fullPhoneNumber ::
  "jsobject \<Rightarrow> (string \<times> string) list \<Rightarrow> exn + (string \<times> string) list" where
  "check_fullPhoneNumber data errs =
     (if truthy (data ''fullPhoneNumber'') then
        (case call_replace ''data.fullPhoneNumber.replace'' (data ''fullPhoneNumber'') NonDigit [] of
           Inl e \<Rightarrow> Inl e
         | Inr cleanedPhone \<Rightarrow>
             Inr (set_if (length cleanedPhone < 10 \<or> length cleanedPhone > 15)
                    ''phone'' ''Invalid phone number length'' errs))
      else Inr errs)"

text \<open>
  \<^verbatim>\<open>validateFormInput\<close> has the same text in both server files.
\<close>

definition validateFormInput :: "jsobject \<Rightarrow> exn + validation" where
  "validateFormInput data =
     (let errors0 = [] in
      case too_short ''data.name.trim'' (data ''name'') 2 of
        Inl e \<Rightarrow> Inl e
      | Inr bad_name \<Rightarrow>
     (let errors1 = set_if bad_name ''name'' ''Valid name is required'' errors0 in
      case falsy_or_fails emailRegex (data ''email'') of
        Inl e \<Rightarrow> Inl e
      | Inr bad_email \<Rightarrow>
     (let errors2 = set_if bad_email ''email'' ''Valid email is required'' errors1 in
      case check_fullPhoneNumber data errors2 of
        Inl e \<Rightarrow> Inl e
      | Inr errors3 \<Rightarrow>
     (case too_short ''data.subject.trim'' (data ''subject'') 3 of
        Inl e \<Rightarrow> Inl e
      | Inr bad_subject \<Rightarrow>
     (let errors4 = set_if bad_subject ''subject'' ''Subject is required'' errors3 in
      case too_short ''data.message.trim'' (data ''message'') 10 of
        Inl e \<Rightarrow> Inl e
      | Inr bad_message \<Rightarrow>
     (let errors5 = set_if bad_message
                      ''message'' ''Message must be at least 10 characters'' errors4
      in Inr \<lparr>isValid = (length (keys errors5) = 0), errors = errors5\<rparr>))))))"

section \<open>Mail\<close>

text \<open>
  The message objects handed to the transporter. \<open>cc = None\<close> is a message object
  without a \<^verbatim>\<open>cc\<close> property. \<open>sender\<close> is the \<^verbatim>\<open>from\<close> property. The properties of
  an object literal are evaluated in the order written, so the first template literal
  that throws ends the construction of the message.
\<close>

record attachment =
  filename :: jsstring
  content :: "8 word list"
  contentType :: jsstring

record mail =
  sender :: jsstring
  to :: jsval
  cc :: "jsval option"
  subject :: jsstring
  html :: jsstring
  attachments :: "attachment list"

text \<open>The file multer puts on the request for the field \<^verbatim>\<open>resume\<close>.\<close>

record upload =
  originalname :: jsstring
  buffer :: "8 word list"
  mimetype :: jsstring

subsection \<open>Job application: \<^verbatim>\<open>mailOptions\<close> and \<^verbatim>\<open>applicantMailOptions\<close>\<close>

text \<open>
  \<open>env\<close> is \<^verbatim>\<open>process.env\<close>, \<open>body\<close> is \<^verbatim>\<open>req.body\<close>, whose properties the handler
  destructures into variables of the same names.
\<close>

definition mailOptions_html :: "jsobject \<Rightarrow> exn + jsstring" where
  "mailOptions_html body =
     template
      [Lit (js ''\<newline>''),
       Lit (js ''        <div style=\"font-family: Arial, sans-serif; max-width: 600px; margin: 0 auto;\">\<newline>''),
       Lit (js ''          <h2>New Job Application</h2>\<newline>''),
       Lit (js ''          <table style=\"width: 100%; border-collapse: collapse;\">\<newline>''),
       Lit (js ''            <tr>\<newline>''),
       Lit (js ''              <td style=\"padding: 10px; border: 1px solid #ddd;\"><strong>Name:</strong></td>\<newline>''),
       Lit (js ''              <td style=\"padding: 10px; border: 1px solid #ddd;\">''),
       Sub (body ''firstName''),
       Lit (js '' ''),
       Sub (body ''lastName''),
       Lit (js ''</td>\<newline>''),
       Lit (js ''            </tr>\<newline>''),
       Lit (js ''            <tr>\<newline>''),
       Lit (js ''              <td style=\"padding: 10px; border: 1px solid #ddd;\"><strong>Email:</strong></td>\<newline>''),
       Lit (js ''              <td style=\"padding: 10px; border: 1px solid #ddd;\">''),
       Sub (body ''email''),
       Lit (js ''</td>\<newline>''),
       Lit (js ''            </tr>\<newline>''),
       Lit (js ''            <tr>\<newline>''),
       Lit (js ''              <td style=\"padding: 10px; border: 1px solid #ddd;\"><strong>Phone:</strong></td>\<newline>''),
       Lit (js ''              <td style=\"padding: 10px; border: 1px solid #ddd;\">''),
       Sub (body ''phone''),
       Lit (js ''</td>\<newline>''),
       Lit (js ''            </tr>\<newline>''),
       Lit (js ''            <tr>\<newline>''),
       Lit (js ''              <td style=\"padding: 10px; border: 1px solid #ddd;\"><strong>Job Title:</strong></td>\<newline>''),
       Lit (js ''              <td style=\"padding: 10px; border: 1px solid #ddd;\">''),
       Sub (body ''jobTitle''),
       Lit (js ''</td>\<newline>''),
       Lit (js ''            </tr>\<newline>''),
       Lit (js ''            <tr>\<newline>''),
       Lit (js ''              <td style=\"padding: 10px; border: 1px solid #ddd;\"><strong>Job Location:</strong></td>\<newline>''),
       Lit (js ''              <td style=\"padding: 10px; border: 1px solid #ddd;\">''),
       Sub (body ''jobLocation''),
       Lit (js ''</td>\<newline>''),
       Lit (js ''            </tr>\<newline>''),
       Lit (js ''          </table>\<newline>''),
       Lit (js ''        </div>\<newline>''),
       Lit (js ''      '')]"

definition mailOptions :: "environment \<Rightarrow> jsobject \<Rightarrow> upload \<Rightarrow> exn + mail" where
  "mailOptions env body file =
     (case template [Lit (js ''\"Job Application\" <''), Sub (getenv env ''EMAIL_USER''),
                     Lit (js ''>'')] of
        Inl e \<Rightarrow> Inl e
      | Inr from_text \<Rightarrow>
     (case template [Lit (js ''Xemsoft | New Job Application | ''), Sub (body ''jobTitle''),
                     Lit (js '' | ''), Sub (body ''jobLocation''),
                     Lit (js '' - ''), Sub (body ''firstName''),
                     Lit (js '' ''), Sub (body ''lastName'')] of
        Inl e \<Rightarrow> Inl e
      | Inr subject_text \<Rightarrow>
     (case mailOptions_html body of
        Inl e \<Rightarrow> Inl e
      | Inr html_text \<Rightarrow>
          Inr \<lparr>sender = from_text,
               to = getenv env ''CLIENT_EMAIL'',
               cc = Some (getenv env ''HR_EMAIL''),
               subject = subject_text,
               html = html_text,
               attachments =
                 [\<lparr>filename = originalname file, content = buffer file,
                   contentType = mimetype file\<rparr>]\<rparr>)))"

definition applicantMailOptions_html :: "jsobject \<Rightarrow> exn + jsstring" where
  "applicantMailOptions_html body =
     template
      [Lit (js ''\<newline>''),
       Lit (js ''        <div style=\"font-family: Arial, sans-serif; max-width: 600px; margin: 0 auto;\">\<newline>''),
       Lit (js ''          <h2>Thank You for Your Application!</h2>\<newline>''),
       Lit (js ''          <p>Hi ''),
       Sub (body ''firstName''),
       Lit (js '',</p>\<newline>''),
       Lit (js ''          <p>We''),
       Lit [0x27],
       Lit (js ''ve received your job application for the position of <strong>''),
       Sub (body ''jobTitle''),
       Lit (js ''</strong> in <strong>''),
       Sub (body ''jobLocation''),
       Lit (js ''</strong> and will review it shortly.</p>\<newline>''),
       Lit (js ''          <p>Our hiring team will contact you if your qualifications match our requirements.</p>\<newline>''),
       Lit (js ''          <br>\<newline>''),
       Lit (js ''          <p>Best regards,<br>Xemsoft</p>\<newline>''),
       Lit (js ''        </div>\<newline>''),
       Lit (js ''      '')]"

definition applicantMailOptions :: "environment \<Rightarrow> jsobject \<Rightarrow> exn + mail" where
  "applicantMailOptions env body =
     (case template [Lit (js ''\"Xemsoft\" <''), Sub (getenv env ''EMAIL_USER''),
                     Lit (js ''>'')] of
        Inl e \<Rightarrow> Inl e
      | Inr from_text \<Rightarrow>
     (case applicantMailOptions_html body of
        Inl e \<Rightarrow> Inl e
      | Inr html_text \<Rightarrow>
          Inr \<lparr>sender = from_text,
               to = body ''email'',
               cc = None,
               subject = js ''We'' @ [0x27] @ js ''ve Received Your Job Application'',
               html = html_text,
               attachments = []\<rparr>))"

subsection \<open>Contact form: \<^verbatim>\<open>clientMailOptions\<close> and \<^verbatim>\<open>userMailOptions\<close>\<close>

text \<open>
  The phone row is a template literal nested in the substitution
  \<^verbatim>\<open>${fullPhoneNumber ? `...` : ''}\<close>; its pieces are spliced in where it stands.
\<close>

definition phone_row :: "jsobject \<Rightarrow> part list" where
  "phone_row body =
     [Lit (js ''\<newline>''),
      Lit (js ''            <tr>\<newline>''),
      Lit (js ''              <td style=\"padding: 10px; border: 1px solid #ddd;\"><strong>Phone:</strong></td>\<newline>''),
      Lit (js ''              <td style=\"padding: 10px; border: 1px solid #ddd;\">''),
      Sub (body ''fullPhoneNumber''),
      Lit (js ''</td>\<newline>''),
      Lit (js ''            </tr>'')]"

definition clientMailOptions_html :: "jsobject \<Rightarrow> exn + jsstring" where
  "clientMailOptions_html body =
     template
      ([Lit (js ''\<newline>''),
       Lit (js ''        <div style=\"font-family: Arial, sans-serif; max-width: 600px; margin: 0 auto;\">\<newline>''),
       Lit (js ''          <h2>New Contact Form Submission</h2>\<newline>''),
       Lit (js ''          <table style=\"width: 100%; border-collapse: collapse;\">\<newline>''),
       Lit (js ''            <tr>\<newline>''),
       Lit (js ''              <td style=\"padding: 10px; border: 1px solid #ddd;\"><strong>Name:</strong></td>\<newline>''),
       Lit (js ''              <td style=\"padding: 10px; border: 1px solid #ddd;\">''),
       Sub (body ''name''),
       Lit (js ''</td>\<newline>''),
       Lit (js ''            </tr>\<newline>''),
       Lit (js ''            <tr>\<newline>''),
       Lit (js ''              <td style=\"padding: 10px; border: 1px solid #ddd;\"><strong>Email:</strong></td>\<newline>''),
       Lit (js ''              <td style=\"padding: 10px; border: 1px solid #ddd;\">''),
       Sub (body ''email''),
       Lit (js ''</td>\<newline>''),
       Lit (js ''            </tr>\<newline>''),
       Lit (js ''            '')]
       @ (if truthy (body ''fullPhoneNumber'') then phone_row body else [])
       @
      [Lit (js ''\<newline>''),
       Lit (js ''            <tr>\<newline>''),
       Lit (js ''              <td style=\"padding: 10px; border: 1px solid #ddd;\"><strong>Subject:</strong></td>\<newline>''),
       Lit (js ''              <td style=\"padding: 10px; border: 1px solid #ddd;\">''),
       Sub (body ''subject''),
       Lit (js ''</td>\<newline>''),
       Lit (js ''            </tr>\<newline>''),
       Lit (js ''            <tr>\<newline>''),
       Lit (js ''              <td style=\"padding: 10px; border: 1px solid #ddd;\"><strong>Message:</strong></td>\<newline>''),
       Lit (js ''              <td style=\"padding: 10px; border: 1px solid #ddd;\">''),
       Sub (body ''message''),
       Lit (js ''</td>\<newline>''),
       Lit (js ''            </tr>\<newline>''),
       Lit (js ''          </table>\<newline>''),
       Lit (js ''        </div>\<newline>''),
       Lit (js ''      '')])"

text \<open>
  The contact notification; \<open>copy\<close> is its \<^verbatim>\<open>cc\<close> property, written between \<^verbatim>\<open>to\<close>
  and \<^verbatim>\<open>subject\<close> where there is one.
\<close>

definition contact_notification ::
  "jsval option \<Rightarrow> environment \<Rightarrow> jsobject \<Rightarrow> exn + mail" where
  "contact_notification copy env body =
     (case template [Lit (js ''\"Contact Form\" <''), Sub (getenv env ''EMAIL_USER''),
                     Lit (js ''>'')] of
        Inl e \<Rightarrow> Inl e
      | Inr from_text \<Rightarrow>
     (case template [Lit (js ''Xemsoft | New Contact Form Submission: ''),
                     Sub (body ''subject'')] of
        Inl e \<Rightarrow> Inl e
      | Inr subject_text \<Rightarrow>
     (case clientMailOptions_html body of
        Inl e \<Rightarrow> Inl e
      | Inr html_text \<Rightarrow>
          Inr \<lparr>sender = from_text,
               to = getenv env ''CLIENT_EMAIL'',
               cc = copy,
               subject = subject_text,
               html = html_text,
               attachments = []\<rparr>)))"

text \<open>
  The server that also takes job applications copies HR on the contact notification.
\<close>

definition clientMailOptions :: "environment \<Rightarrow> jsobject \<Rightarrow> exn + mail" where
  "clientMailOptions env body = contact_notification (Some (getenv env ''HR_EMAIL'')) env body"

text \<open>
  \<^verbatim>\<open>src/server.js\<close>, the contact-only server: the same object without \<^verbatim>\<open>cc\<close>.
\<close>

definition clientMailOptions_server_js :: "environment \<Rightarrow> jsobject \<Rightarrow> exn + mail" where
  "clientMailOptions_server_js env body = contact_notification None env body"

definition userMailOptions_html :: "jsobject \<Rightarrow> exn + jsstring" where
  "userMailOptions_html body =
     template
      [Lit (js ''\<newline>''),
       Lit (js ''        <div style=\"font-family: Arial, sans-serif; max-width: 600px; margin: 0 auto;\">\<newline>''),
       Lit (js ''          <h2>Thank You for Contacting Us!</h2>\<newline>''),
       Lit (js ''          <p>Hi ''),
       Sub (body ''name''),
       Lit (js '',</p>\<newline>''),
       Lit (js ''          <p>We''),
       Lit [0x27],
       Lit (js ''ve received your message regarding \"''),
       Sub (body ''subject''),
       Lit (js ''\" and will get back to you soon.</p>\<newline>''),
       Lit (js ''          <p>Our team will review your inquiry and respond within the next 1-2 business days.</p>\<newline>''),
       Lit (js ''          <br>\<newline>''),
       Lit (js ''          <p>Best regards,<br>Xemsoft</p>\<newline>''),
       Lit (js ''        </div>\<newline>''),
       Lit (js ''      '')]"

definition userMailOptions :: "environment \<Rightarrow> jsobject \<Rightarrow> exn + mail" where
  "userMailOptions env body =
     (case template [Lit (js ''\"Xemsoft\" <''), Sub (getenv env ''EMAIL_USER''),
                     Lit (js ''>'')] of
        Inl e \<Rightarrow> Inl e
      | Inr from_text \<Rightarrow>
     (case userMailOptions_html body of
        Inl e \<Rightarrow> Inl e
      | Inr html_text \<Rightarrow>
          Inr \<lparr>sender = from_text,
               to = body ''email'',
               cc = None,
               subject = js ''We'' @ [0x27] @ js ''ve Received Your Message'',
               html = html_text,
               attachments = []\<rparr>))"

section \<open>Dispatch and the handlers\<close>

text \<open>
  The transporter is the mail relay: \<^verbatim>\<open>sendMail\<close> returns a promise that is fulfilled,
  or rejected with an error of some message. Both sends of a request are started before
  either is awaited. \<^verbatim>\<open>Promise.all\<close> is fulfilled when both are, and rejected with the
  reason of the promise that rejects first; when both reject, \<open>second_rejects_first\<close>
  says which.
\<close>

datatype outcome = Fulfilled | Rejected jsstring

record transport =
  sendMail :: "mail \<Rightarrow> outcome"
  second_rejects_first :: bool

fun Promise_all :: "bool \<Rightarrow> outcome \<Rightarrow> outcome \<Rightarrow> exn + unit" where
  "Promise_all snd_first Fulfilled Fulfilled = Inr ()"
| "Promise_all snd_first (Rejected m) Fulfilled = Inl (SendFailed m)"
| "Promise_all snd_first Fulfilled (Rejected m) = Inl (SendFailed m)"
| "Promise_all snd_first (Rejected m1) (Rejected m2) =
     Inl (SendFailed (if snd_first then m2 else m1))"

text \<open>
  The JSON body of a response: \<^verbatim>\<open>{message}\<close>, \<^verbatim>\<open>{errors}\<close> or \<^verbatim>\<open>{message, error}\<close>.
\<close>

datatype body = Message string | Errors "(string \<times> string) list" | Failure string jsstring

record response =
  status :: nat
  json :: body

text \<open>
  What handling one request does: the messages given to \<^verbatim>\<open>sendMail\<close>, in call order,
  and the response.
\<close>

record handled =
  sent :: "mail list"
  res :: response

text \<open>
  The \<^verbatim>\<open>catch\<close> block of a handler: whatever was thrown in the \<^verbatim>\<open>try\<close> block, after the
  sends \<open>ms\<close>, is answered with 500, the handler's failure message and the error text.
\<close>

definition caught :: "string \<Rightarrow> mail list \<Rightarrow> exn \<Rightarrow> handled" where
  "caught failure ms error =
     \<lparr>sent = ms, res = \<lparr>status = 500, json = Failure failure (message error)\<rparr>\<rparr>"

record job_request =
  req_body :: jsobject
  req_file :: "upload option"

text \<open>\<^verbatim>\<open>app.post('/api/job-application', upload.single('resume'), ...)\<close>\<close>

definition post_job_application :: "environment \<Rightarrow> transport \<Rightarrow> job_request \<Rightarrow> handled" where
  "post_job_application env transporter req =
     (case validateJobApplication (req_body req) of
        Inl error \<Rightarrow> caught ''Failed to submit application. Please try again later.'' [] error
      | Inr v \<Rightarrow>
          if \<not> isValid v then
            \<lparr>sent = [], res = \<lparr>status = 400, json = Errors (errors v)\<rparr>\<rparr>
          else
            (case req_file req of
               None \<Rightarrow>
                 \<lparr>sent = [],
                  res = \<lparr>status = 400, json = Errors [(''file'', ''Resume is required'')]\<rparr>\<rparr>
             | Some file \<Rightarrow>
            (case mailOptions env (req_body req) file of
               Inl error \<Rightarrow>
                 caught ''Failed to submit application. Please try again later.'' [] error
             | Inr m \<Rightarrow>
            (case applicantMailOptions env (req_body req) of
               Inl error \<Rightarrow>
                 caught ''Failed to submit application. Please try again later.'' [] error
             | Inr a \<Rightarrow>
            (case Promise_all (second_rejects_first transporter)
                    (sendMail transporter m) (sendMail transporter a) of
               Inl error \<Rightarrow>
                 caught ''Failed to submit application. Please try again later.'' [m, a] error
             | Inr u \<Rightarrow>
                 \<lparr>sent = [m, a],
                  res = \<lparr>status = 200,
                         json = Message (''Application submitted successfully. We''
                                  @ [CHR 0x27] @ ''ll be in touch soon!'')\<rparr>\<rparr>)))))"

text \<open>
  \<^verbatim>\<open>app.post('/api/contact', ...)\<close>; the two server files differ in the notification
  only, which is the parameter \<open>client\<close>.
\<close>

definition contact_with ::
  "(environment \<Rightarrow> jsobject \<Rightarrow> exn + mail) \<Rightarrow> environment \<Rightarrow> transport \<Rightarrow> jsobject \<Rightarrow> handled" where
  "contact_with client env transporter body =
     (case validateFormInput body of
        Inl error \<Rightarrow> caught ''Failed to submit form. Please try again later.'' [] error
      | Inr v \<Rightarrow>
          if \<not> isValid v then
            \<lparr>sent = [], res = \<lparr>status = 400, json = Errors (errors v)\<rparr>\<rparr>
          else
            (case client env body of
               Inl error \<Rightarrow> caught ''Failed to submit form. Please try again later.'' [] error
             | Inr c \<Rightarrow>
            (case userMailOptions env body of
               Inl error \<Rightarrow> caught ''Failed to submit form. Please try again later.'' [] error
             | Inr u \<Rightarrow>
            (case Promise_all (second_rejects_first transporter)
                    (sendMail transporter c) (sendMail transporter u) of
               Inl error \<Rightarrow>
                 caught ''Failed to submit form. Please try again later.'' [c, u] error
             | Inr x \<Rightarrow>
                 \<lparr>sent = [c, u],
                  res = \<lparr>status = 200,
                         json = Message (''Form submitted successfully. We''
                                  @ [CHR 0x27] @ ''ll be in touch soon!'')\<rparr>\<rparr>))))"

definition post_contact :: "environment \<Rightarrow> transport \<Rightarrow> jsobject \<Rightarrow> handled" where
  "post_contact = contact_with clientMailOptions"

definition post_contact_server_js :: "environment \<Rightarrow> transport \<Rightarrow> jsobject \<Rightarrow> handled" where
  "post_contact_server_js = contact_with clientMailOptions_server_js"

section \<open>The rules as the specification words them\<close>

text \<open>A non-empty run of characters that all satisfy \<open>p\<close>.\<close>

definition run :: "(16 word \<Rightarrow> bool) \<Rightarrow> jsstring \<Rightarrow> bool" where
  "run p u \<longleftrightarrow> u \<noteq> [] \<and> list_all p u"

text \<open>A character that is neither whitespace nor \<^verbatim>\<open>@\<close>.\<close>

definition plain_char :: "16 word \<Rightarrow> bool" where
  "plain_char c \<longleftrightarrow> \<not> isWhiteSpace c \<and> c \<noteq> 0x40"

text \<open>
  The email pattern in words: a run of plain characters, \<^verbatim>\<open>@\<close>, such a run, \<^verbatim>\<open>.\<close>,
  such a run.
\<close>

definition spec_email_pattern :: "jsstring \<Rightarrow> bool" where
  "spec_email_pattern s \<longleftrightarrow>
     (\<exists>a b c. s = a @ [0x40] @ b @ [0x2E] @ c
              \<and> run plain_char a \<and> run plain_char b \<and> run plain_char c)"

text \<open>
  The phone pattern in words: an optional leading \<^verbatim>\<open>+\<close>, then at least 10 characters
  that all satisfy \<open>p\<close>.
\<close>

definition phone_shape :: "(16 word \<Rightarrow> bool) \<Rightarrow> jsstring \<Rightarrow> bool" where
  "phone_shape p s \<longleftrightarrow>
     (10 \<le> length s \<and> list_all p s)
     \<or> (case s of [] \<Rightarrow> False | c # r \<Rightarrow> c = 0x2B \<and> 10 \<le> length r \<and> list_all p r)"

text \<open>A digit, a space, a hyphen or a parenthesis.\<close>

definition digit_space_hyphen_paren :: "16 word \<Rightarrow> bool" where
  "digit_space_hyphen_paren c \<longleftrightarrow> isDigit c \<or> c = 0x20 \<or> c = 0x2D \<or> c = 0x28 \<or> c = 0x29"

text \<open>A digit, a whitespace character, a hyphen or a parenthesis.\<close>

definition digit_white_hyphen_paren :: "16 word \<Rightarrow> bool" where
  "digit_white_hyphen_paren c \<longleftrightarrow> isDigit c \<or> isWhiteSpace c \<or> c = 0x2D \<or> c = 0x28 \<or> c = 0x29"

text \<open>The number of digits of a string.\<close>

definition digit_count :: "jsstring \<Rightarrow> nat" where
  "digit_count s = length (filter isDigit s)"

text \<open>A required field that is missing, or empty once trimmed.\<close>

fun missing_or_blank :: "jsval \<Rightarrow> bool" where
  "missing_or_blank JUndefined = True"
| "missing_or_blank JNull = True"
| "missing_or_blank (JStr s) = (trim s = [])"
| "missing_or_blank (JOther t s) = False"
| "missing_or_blank JOpaque = False"

text \<open>A required field that is missing, or has fewer than \<open>n\<close> characters once trimmed.\<close>

fun missing_or_shorter :: "nat \<Rightarrow> jsval \<Rightarrow> bool" where
  "missing_or_shorter n (JStr s) = (length (trim s) < n)"
| "missing_or_shorter n v = (\<not> truthy v)"

text \<open>The email and phone rules of the source: the field is falsy or fails the test.\<close>

definition violates :: "rterm list \<Rightarrow> jsval \<Rightarrow> bool" where
  "violates re v \<longleftrightarrow> falsy_or_fails re v = Inr True"

text \<open>A value that has a string conversion.\<close>

fun printable :: "jsval \<Rightarrow> bool" where
  "printable JOpaque = False"
| "printable v = True"

fun printable_part :: "part \<Rightarrow> bool" where
  "printable_part (Lit s) = True"
| "printable_part (Sub v) = printable v"

text \<open>A value on which an optional \<^verbatim>\<open>?.trim()\<close> does not throw.\<close>

fun nullish_or_string :: "jsval \<Rightarrow> bool" where
  "nullish_or_string JUndefined = True"
| "nullish_or_string JNull = True"
| "nullish_or_string (JStr s) = True"
| "nullish_or_string v = False"

text \<open>A value on which a guarded \<^verbatim>\<open>trim\<close> or \<^verbatim>\<open>replace\<close> does not throw.\<close>

fun falsy_or_string :: "jsval \<Rightarrow> bool" where
  "falsy_or_string (JStr s) = True"
| "falsy_or_string v = (\<not> truthy v)"

text \<open>A field that holds a string or is absent.\<close>

fun string_or_absent :: "jsval \<Rightarrow> bool" where
  "string_or_absent JUndefined = True"
| "string_or_absent (JStr s) = True"
| "string_or_absent v = False"

text \<open>
  The outcome of a request that reaches dispatch, in words: the two messages \<open>m\<close> and
  \<open>a\<close> are handed to the relay, in this order and nothing else; the status is 200
  exactly when both sends are fulfilled; when one is not, the status is 500 and the body
  holds the fixed failure message and the error text of a send that was rejected.
\<close>

definition both_or_500 :: "transport \<Rightarrow> mail \<Rightarrow> mail \<Rightarrow> string \<Rightarrow> handled \<Rightarrow> bool" where
  "both_or_500 tr m a failure h \<longleftrightarrow>
     sent h = [m, a]
     \<and> (status (res h) = 200 \<longleftrightarrow> sendMail tr m = Fulfilled \<and> sendMail tr a = Fulfilled)
     \<and> (sendMail tr m \<noteq> Fulfilled \<or> sendMail tr a \<noteq> Fulfilled \<longrightarrow>
          status (res h) = 500
          \<and> (\<exists>text. json (res h) = Failure failure text
                    \<and> (sendMail tr m = Rejected text \<or> sendMail tr a = Rejected text)))"

section \<open>Sample requests\<close>

text \<open>Concrete inputs on which the properties below are exercised.\<close>

definition sample_env :: environment where
  "sample_env = map_of
     [(''EMAIL_USER'', js ''noreply@xemsoft.example''),
      (''CLIENT_EMAIL'', js ''client@xemsoft.example''),
      (''HR_EMAIL'', js ''hr@xemsoft.example'')]"

definition sample_application :: jsobject where
  "sample_application = object_of
     [(''firstName'', JStr (js ''Ada'')),
      (''lastName'', JStr (js ''King'')),
      (''email'', JStr (js ''a@b.com'')),
      (''phone'', JStr (js ''+1 (555) 123-4567'')),
      (''jobTitle'', JStr (js ''Engineer'')),
      (''jobLocation'', JStr (js ''Remote''))]"

definition sample_resume :: upload where
  "sample_resume =
     \<lparr>originalname = js ''cv.pdf'', buffer = [0x25, 0x50, 0x44, 0x46],
      mimetype = js ''application/pdf''\<rparr>"

definition sample_contact :: jsobject where
  "sample_contact = object_of
     [(''name'', JStr (js ''Al'')),
      (''email'', JStr (js ''a@b.com'')),
      (''fullPhoneNumber'', JStr (js ''123-456-7890'')),
      (''subject'', JStr (js ''Hey'')),
      (''message'', JStr (js ''0123456789''))]"

text \<open>A relay that accepts every message, and one that refuses every message.\<close>

definition relay_up :: transport where
  "relay_up = \<lparr>sendMail = (\<lambda>m. Fulfilled), second_rejects_first = False\<rparr>"

definition relay_down :: transport where
  "relay_down = \<lparr>sendMail = (\<lambda>m. Rejected (js ''ECONNREFUSED'')), second_rejects_first = False\<rparr>"

text \<open>A relay that refuses only the acknowledgment, the message without attachment or copy.\<close>

definition relay_no_ack :: transport where
  "relay_no_ack =
     \<lparr>sendMail = (\<lambda>m. if cc m = None \<and> attachments m = [] then Rejected (js ''EENVELOPE'')
                        else Fulfilled),
      second_rejects_first = False\<rparr>"

section \<open>The regular expressions against their wording\<close>

text \<open>
  The repetition equation of \<open>rmatch\<close> is unfolded by hand, one character at a time.
\<close>

declare rmatch.simps(4) [simp del]

lemma rmatch_Rep_Nil: "rmatch (Rep a lo hi # ts) b [] \<longleftrightarrow> lo = 0 \<and> rmatch ts b []"
  by (simp add: rmatch.simps(4))

lemma rmatch_Rep_Cons:
  "rmatch (Rep a lo hi # ts) b (c # cs) \<longleftrightarrow>
     (lo = 0 \<and> rmatch ts b (c # cs)) \<or>
     (hi \<noteq> Some 0 \<and> atom_ok a c \<and> rmatch (Rep a (lo - 1) (map_option (\<lambda>h. h - 1) hi) # ts) False cs)"
  by (simp add: rmatch.simps(4))

lemma rmatch_Rep_skip: "rmatch ts b s \<Longrightarrow> rmatch (Rep a 0 hi # ts) b s"
  by (simp add: rmatch.simps(4))

lemma rmatch_Rep_done: "rmatch (Rep a 0 (Some 0) # ts) b s \<longleftrightarrow> rmatch ts b s"
  by (simp add: rmatch.simps(4))

lemma rmatch_Rep_unbounded:
  "rmatch (Rep a lo None # ts) b s \<longleftrightarrow>
     (\<exists>u v. s = u @ v \<and> lo \<le> length u \<and> list_all (atom_ok a) u \<and> rmatch ts (b \<and> u = []) v)"
proof (induction s arbitrary: lo b)
  case Nil
  show ?case by (simp add: rmatch_Rep_Nil)
next
  case (Cons c cs)
  have IH: "rmatch (Rep a (lo - 1) None # ts) False cs \<longleftrightarrow>
     (\<exists>u v. cs = u @ v \<and> lo - 1 \<le> length u \<and> list_all (atom_ok a) u \<and> rmatch ts False v)"
    using Cons.IH[of "lo - 1" False] by simp
  show ?case
  proof
    assume "rmatch (Rep a lo None # ts) b (c # cs)"
    then consider "lo = 0" "rmatch ts b (c # cs)"
      | "atom_ok a c" "rmatch (Rep a (lo - 1) None # ts) False cs"
      by (auto simp: rmatch_Rep_Cons)
    then show "\<exists>u v. c # cs = u @ v \<and> lo \<le> length u \<and> list_all (atom_ok a) u \<and> rmatch ts (b \<and> u = []) v"
    proof cases
      case 1
      then show ?thesis by (intro exI[of _ "[]"] exI[of _ "c # cs"]) simp
    next
      case 2
      from 2(2) IH obtain u v where "cs = u @ v" "lo - 1 \<le> length u" "list_all (atom_ok a) u" "rmatch ts False v"
        by blast
      with 2(1) show ?thesis by (intro exI[of _ "c # u"] exI[of _ v]) auto
    qed
  next
    assume "\<exists>u v. c # cs = u @ v \<and> lo \<le> length u \<and> list_all (atom_ok a) u \<and> rmatch ts (b \<and> u = []) v"
    then obtain u v where uv: "c # cs = u @ v" "lo \<le> length u" "list_all (atom_ok a) u" "rmatch ts (b \<and> u = []) v"
      by blast
    show "rmatch (Rep a lo None # ts) b (c # cs)"
    proof (cases u)
      case Nil
      with uv show ?thesis by (auto intro: rmatch_Rep_skip)
    next
      case (Cons x u')
      with uv have *: "x = c" "cs = u' @ v" "lo - 1 \<le> length u'" "list_all (atom_ok a) u'" "rmatch ts False v" "atom_ok a c"
        by auto
      then have "rmatch (Rep a (lo - 1) None # ts) False cs"
        using IH by blast
      with \<open>atom_ok a c\<close> show ?thesis by (simp add: rmatch_Rep_Cons)
    qed
  qed
qed

lemma rmatch_one:
  "rmatch (Rep a 1 (Some 1) # ts) b s \<longleftrightarrow> (\<exists>c cs. s = c # cs \<and> atom_ok a c \<and> rmatch ts False cs)"
  by (cases s) (auto simp: rmatch_Rep_Cons rmatch_Rep_Nil rmatch_Rep_done)

lemma rmatch_opt:
  "rmatch (Rep a 0 (Some 1) # ts) b s \<longleftrightarrow>
     rmatch ts b s \<or> (\<exists>c cs. s = c # cs \<and> atom_ok a c \<and> rmatch ts False cs)"
  by (cases s) (auto simp: rmatch_Rep_Cons rmatch_Rep_Nil rmatch_Rep_done)


lemma rsearch_Bol_False: "\<not> rsearch (Bol # ts) False s"
  by (induction s) auto

lemma rsearch_Bol: "rsearch (Bol # ts) True s = rmatch ts True s"
  by (cases s) (auto simp: rsearch_Bol_False)

lemma plain_char_atom: "atom_ok (NegClass [ClsSpace, ClsChar 0x40]) c = plain_char c"
  by (auto simp: plain_char_def)

lemma plus_aux:
  "(1 \<le> length u \<and> list_all p u \<and> rmatch ts (b \<and> u = []) v) = (run p u \<and> rmatch ts False v)"
  by (cases u) (auto simp: run_def)

lemma rmatch_plus:
  "rmatch (Rep a 1 None # ts) b s \<longleftrightarrow>
     (\<exists>u v. s = u @ v \<and> run (atom_ok a) u \<and> rmatch ts False v)"
  by (simp only: rmatch_Rep_unbounded plus_aux)

lemma rmatch_Eol: "rmatch [Eol] b s \<longleftrightarrow> s = []"
  by simp

lemma email_unfold:
  "rsearch emailRegex True s \<longleftrightarrow>
    (\<exists>u v. s = u @ v \<and> run plain_char u \<and>
      (\<exists>c cs. v = c # cs \<and> c = 0x40 \<and>
        (\<exists>u v. cs = u @ v \<and> run plain_char u \<and>
          (\<exists>c cs. v = c # cs \<and> c = 0x2E \<and>
            (\<exists>u v. cs = u @ v \<and> run plain_char u \<and> v = [])))))"
  unfolding emailRegex_def rsearch_Bol rmatch_plus rmatch_one rmatch_Eol plain_char_atom atom_ok.simps(1)
  by (rule refl)

lemma emailRegex_spec: "rsearch emailRegex True s \<longleftrightarrow> spec_email_pattern s"
proof
  assume "rsearch emailRegex True s"
  then obtain u1 u2 u3 where
    "s = u1 @ 0x40 # u2 @ 0x2E # u3" "run plain_char u1" "run plain_char u2" "run plain_char u3"
    unfolding email_unfold by auto
  then show "spec_email_pattern s"
    unfolding spec_email_pattern_def by auto
next
  assume "spec_email_pattern s"
  then obtain a b c where
    s: "s = a @ 0x40 # b @ 0x2E # c" and r: "run plain_char a" "run plain_char b" "run plain_char c"
    unfolding spec_email_pattern_def by auto
  show "rsearch emailRegex True s"
    unfolding email_unfold
    apply (rule exI[of _ a], rule exI[of _ "0x40 # b @ 0x2E # c"])
    apply (simp add: s r)
    apply (rule exI[of _ b], rule exI[of _ "0x2E # c"])
    apply (simp add: r)
    done
qed


lemma phone_class_atom:
  "atom_ok (Class [ClsDigit, ClsSpace, ClsChar 0x2D, ClsChar 0x28, ClsChar 0x29]) c
     = digit_white_hyphen_paren c"
  by (auto simp: digit_white_hyphen_paren_def)

lemma rmatch_at_least_Eol:
  "rmatch [Rep a n None, Eol] b s \<longleftrightarrow> n \<le> length s \<and> list_all (atom_ok a) s"
  unfolding rmatch_Rep_unbounded rmatch_Eol by auto

lemma phoneRegex_spec: "rsearch phoneRegex True s \<longleftrightarrow> phone_shape digit_white_hyphen_paren s"
  unfolding phoneRegex_def rsearch_Bol rmatch_opt rmatch_at_least_Eol phone_class_atom phone_shape_def
  by (cases s) auto

section \<open>What the validators return\<close>

lemma keys_set_prop: "set (keys (set_prop k v xs)) = insert k (set (keys xs))"
  by (simp add: keys_def set_prop_def dom_update)

lemma keys_Nil: "keys [] = []"
  by (simp add: keys_def)

lemma keys_empty_iff: "(length (keys xs) = 0) = (xs = [])"
  by (simp add: keys_def)

lemma keys_set_if:
  "set (keys (set_if c k v xs)) = {x. x = k \<and> c} \<union> set (keys xs)"
  by (auto simp: keys_set_prop set_if_def)

lemma trim_Nil: "trim [] = []"
  by (simp add: trim_def)

lemma opt_trim_Inr: "opt_trim c v = Inr t \<Longrightarrow> (\<not> truthy t) = missing_or_blank v"
  by (cases v) auto

lemma opt_trim_returns: "(\<exists>x. opt_trim c v = Inr x) \<longleftrightarrow> nullish_or_string v"
  by (cases v) auto

lemma too_short_Inr: "too_short c v n = Inr b \<Longrightarrow> 0 < n \<Longrightarrow> b = missing_or_shorter n v"
  by (cases v) (auto simp: too_short_def trim_Nil split: if_splits)

lemma too_short_returns: "(\<exists>b. too_short c v n = Inr b) \<longleftrightarrow> falsy_or_string v"
  by (cases v) (auto simp: too_short_def)

lemma falsy_or_fails_returns: "(\<exists>b. falsy_or_fails re v = Inr b) \<longleftrightarrow> printable v"
  by (cases v) (auto simp: falsy_or_fails_def test_def)

lemma falsy_or_fails_Inr: "falsy_or_fails re v = Inr b \<Longrightarrow> b = violates re v"
  by (simp add: violates_def)

lemma violates_string: "violates re (JStr s) \<longleftrightarrow> s = [] \<or> \<not> rsearch re True s"
  by (simp add: violates_def falsy_or_fails_def test_def)


lemma replace_NonDigit: "replace_all NonDigit [] s = filter isDigit s"
  by (induction s) (auto simp: replace_all_def)

lemma validateJobApplication_Inr:
  assumes "validateJobApplication d = Inr r"
  obtains fn ln be bp where
    "opt_trim ''data.firstName?.trim'' (d ''firstName'') = Inr fn"
    "opt_trim ''data.lastName?.trim'' (d ''lastName'') = Inr ln"
    "falsy_or_fails emailRegex (d ''email'') = Inr be"
    "falsy_or_fails phoneRegex (d ''phone'') = Inr bp"
    "errors r =
       set_if bp ''phone'' ''Valid phone number is required''
        (set_if be ''email'' ''Valid email is required''
          (set_if (\<not> truthy ln) ''lastName'' ''Last name is required''
            (set_if (\<not> truthy fn) ''firstName'' ''First name is required'' [])))"
    "isValid r = (length (keys (errors r)) = 0)"
proof (cases "opt_trim ''data.firstName?.trim'' (d ''firstName'')")
  case (Inl e)
  with assms show ?thesis by (simp add: validateJobApplication_def)
next
  case fn: (Inr fn)
  show ?thesis
  proof (cases "opt_trim ''data.lastName?.trim'' (d ''lastName'')")
    case (Inl e)
    with assms fn show ?thesis by (simp add: validateJobApplication_def)
  next
    case ln: (Inr ln)
    show ?thesis
    proof (cases "falsy_or_fails emailRegex (d ''email'')")
      case (Inl e)
      with assms fn ln show ?thesis by (simp add: validateJobApplication_def)
    next
      case be: (Inr be)
      show ?thesis
      proof (cases "falsy_or_fails phoneRegex (d ''phone'')")
        case (Inl e)
        with assms fn ln be show ?thesis by (simp add: validateJobApplication_def)
      next
        case bp: (Inr bp)
        from assms have "r = \<lparr>isValid = (length (keys
            (set_if bp ''phone'' ''Valid phone number is required''
              (set_if be ''email'' ''Valid email is required''
                (set_if (\<not> truthy ln) ''lastName'' ''Last name is required''
                  (set_if (\<not> truthy fn) ''firstName'' ''First name is required'' []))))) = 0),
          errors = set_if bp ''phone'' ''Valid phone number is required''
              (set_if be ''email'' ''Valid email is required''
                (set_if (\<not> truthy ln) ''lastName'' ''Last name is required''
                  (set_if (\<not> truthy fn) ''firstName'' ''First name is required'' [])))\<rparr>"
          unfolding validateJobApplication_def fn ln be bp Let_def by simp
        then show ?thesis using that[OF fn ln be bp] by simp
      qed
    qed
  qed
qed

lemma validateJobApplication_keys:
  assumes "validateJobApplication d = Inr r"
  shows "set (keys (errors r)) =
           {k. k = ''firstName'' \<and> missing_or_blank (d ''firstName'')}
         \<union> {k. k = ''lastName'' \<and> missing_or_blank (d ''lastName'')}
         \<union> {k. k = ''email'' \<and> violates emailRegex (d ''email'')}
         \<union> {k. k = ''phone'' \<and> violates phoneRegex (d ''phone'')}"
proof -
  from assms obtain fn ln be bp where
    fn: "opt_trim ''data.firstName?.trim'' (d ''firstName'') = Inr fn" and
    ln: "opt_trim ''data.lastName?.trim'' (d ''lastName'') = Inr ln" and
    be: "falsy_or_fails emailRegex (d ''email'') = Inr be" and
    bp: "falsy_or_fails phoneRegex (d ''phone'') = Inr bp" and
    e: "errors r =
       set_if bp ''phone'' ''Valid phone number is required''
        (set_if be ''email'' ''Valid email is required''
          (set_if (\<not> truthy ln) ''lastName'' ''Last name is required''
            (set_if (\<not> truthy fn) ''firstName'' ''First name is required'' [])))"
    by (rule validateJobApplication_Inr)
  show ?thesis
    unfolding e keys_set_if keys_Nil opt_trim_Inr[OF fn] opt_trim_Inr[OF ln]
      falsy_or_fails_Inr[OF be] falsy_or_fails_Inr[OF bp]
    by auto
qed

lemma validateJobApplication_isValid:
  assumes "validateJobApplication d = Inr r"
  shows "isValid r = (errors r = [])"
proof -
  from assms have "isValid r = (length (keys (errors r)) = 0)"
    by (rule validateJobApplication_Inr)
  then show ?thesis
    by (simp only: keys_empty_iff)
qed

lemma validateJobApplication_returns:
  "(\<exists>r. validateJobApplication d = Inr r) \<longleftrightarrow>
     nullish_or_string (d ''firstName'') \<and> nullish_or_string (d ''lastName'')
     \<and> printable (d ''email'') \<and> printable (d ''phone'')"
proof
  assume "\<exists>r. validateJobApplication d = Inr r"
  then obtain r where "validateJobApplication d = Inr r" ..
  then obtain fn ln be bp where
    "opt_trim ''data.firstName?.trim'' (d ''firstName'') = Inr fn"
    "opt_trim ''data.lastName?.trim'' (d ''lastName'') = Inr ln"
    "falsy_or_fails emailRegex (d ''email'') = Inr be"
    "falsy_or_fails phoneRegex (d ''phone'') = Inr bp"
    by (rule validateJobApplication_Inr)
  then show "nullish_or_string (d ''firstName'') \<and> nullish_or_string (d ''lastName'')
     \<and> printable (d ''email'') \<and> printable (d ''phone'')"
    using opt_trim_returns falsy_or_fails_returns by blast
next
  assume a: "nullish_or_string (d ''firstName'') \<and> nullish_or_string (d ''lastName'')
     \<and> printable (d ''email'') \<and> printable (d ''phone'')"
  then obtain fn where fn: "opt_trim ''data.firstName?.trim'' (d ''firstName'') = Inr fn"
    using opt_trim_returns by blast
  from a obtain ln where ln: "opt_trim ''data.lastName?.trim'' (d ''lastName'') = Inr ln"
    using opt_trim_returns by blast
  from a obtain be where be: "falsy_or_fails emailRegex (d ''email'') = Inr be"
    using falsy_or_fails_returns by blast
  from a obtain bp where bp: "falsy_or_fails phoneRegex (d ''phone'') = Inr bp"
    using falsy_or_fails_returns by blast
  show "\<exists>r. validateJobApplication d = Inr r"
    unfolding validateJobApplication_def Let_def fn ln be bp by simp
qed

lemma check_fullPhoneNumber_Inr:
  assumes "check_fullPhoneNumber d es = Inr es'"
  shows "es' = set_if (case d ''fullPhoneNumber'' of
                        JStr s \<Rightarrow> s \<noteq> [] \<and> (digit_count s < 10 \<or> 15 < digit_count s)
                      | _ \<Rightarrow> False)
                 ''phone'' ''Invalid phone number length'' es"
proof (cases "d ''fullPhoneNumber''")
  case JUndefined
  with assms show ?thesis by (simp add: check_fullPhoneNumber_def set_if_def)
next
  case JNull
  with assms show ?thesis by (simp add: check_fullPhoneNumber_def set_if_def)
next
  case (JStr s)
  with assms show ?thesis
    by (cases "s = []") (auto simp: check_fullPhoneNumber_def replace_NonDigit digit_count_def set_if_def)
next
  case (JOther t s)
  with assms show ?thesis
    by (cases t) (simp_all add: check_fullPhoneNumber_def set_if_def)
next
  case JOpaque
  with assms show ?thesis by (simp add: check_fullPhoneNumber_def)
qed

lemma check_fullPhoneNumber_returns:
  "(\<exists>es'. check_fullPhoneNumber d es = Inr es') \<longleftrightarrow> falsy_or_string (d ''fullPhoneNumber'')"
proof (cases "d ''fullPhoneNumber''")
  case JUndefined
  then show ?thesis by (simp add: check_fullPhoneNumber_def)
next
  case JNull
  then show ?thesis by (simp add: check_fullPhoneNumber_def)
next
  case (JStr s)
  then show ?thesis by (cases "s = []") (simp_all add: check_fullPhoneNumber_def)
next
  case (JOther t s)
  then show ?thesis by (cases t) (simp_all add: check_fullPhoneNumber_def)
next
  case JOpaque
  then show ?thesis by (simp add: check_fullPhoneNumber_def)
qed

lemma validateFormInput_Inr:
  assumes "validateFormInput d = Inr r"
  obtains bn be e3 bs bm where
    "too_short ''data.name.trim'' (d ''name'') 2 = Inr bn"
    "falsy_or_fails emailRegex (d ''email'') = Inr be"
    "check_fullPhoneNumber d
       (set_if be ''email'' ''Valid email is required''
         (set_if bn ''name'' ''Valid name is required'' [])) = Inr e3"
    "too_short ''data.subject.trim'' (d ''subject'') 3 = Inr bs"
    "too_short ''data.message.trim'' (d ''message'') 10 = Inr bm"
    "errors r =
       set_if bm ''message'' ''Message must be at least 10 characters''
        (set_if bs ''subject'' ''Subject is required'' e3)"
    "isValid r = (length (keys (errors r)) = 0)"
proof (cases "too_short ''data.name.trim'' (d ''name'') 2")
  case (Inl e)
  with assms show ?thesis by (simp add: validateFormInput_def)
next
  case bn: (Inr bn)
  show ?thesis
  proof (cases "falsy_or_fails emailRegex (d ''email'')")
    case (Inl e)
    with assms bn show ?thesis by (simp add: validateFormInput_def Let_def)
  next
    case be: (Inr be)
    show ?thesis
    proof (cases "check_fullPhoneNumber d
         (set_if be ''email'' ''Valid email is required''
           (set_if bn ''name'' ''Valid name is required'' []))")
      case (Inl e)
      with assms bn be show ?thesis by (simp add: validateFormInput_def Let_def)
    next
      case e3: (Inr e3)
      show ?thesis
      proof (cases "too_short ''data.subject.trim'' (d ''subject'') 3")
        case (Inl e)
        with assms bn be e3 show ?thesis by (simp add: validateFormInput_def Let_def)
      next
        case bs: (Inr bs)
        show ?thesis
        proof (cases "too_short ''data.message.trim'' (d ''message'') 10")
          case (Inl e)
          with assms bn be e3 bs show ?thesis by (simp add: validateFormInput_def Let_def)
        next
          case bm: (Inr bm)
          from assms have "r = \<lparr>isValid = (length (keys
                (set_if bm ''message'' ''Message must be at least 10 characters''
                  (set_if bs ''subject'' ''Subject is required'' e3))) = 0),
              errors = set_if bm ''message'' ''Message must be at least 10 characters''
                (set_if bs ''subject'' ''Subject is required'' e3)\<rparr>"
            unfolding validateFormInput_def Let_def bn sum.case be e3 bs bm by simp
          then show ?thesis using that[OF bn be e3 bs bm] by simp
        qed
      qed
    qed
  qed
qed

lemma validateFormInput_isValid:
  assumes "validateFormInput d = Inr r"
  shows "isValid r = (errors r = [])"
proof -
  from assms have "isValid r = (length (keys (errors r)) = 0)"
    by (rule validateFormInput_Inr)
  then show ?thesis
    by (simp only: keys_empty_iff)
qed

lemma validateFormInput_keys:
  assumes "validateFormInput d = Inr r"
  shows "set (keys (errors r)) =
           {k. k = ''name'' \<and> missing_or_shorter 2 (d ''name'')}
         \<union> {k. k = ''email'' \<and> violates emailRegex (d ''email'')}
         \<union> {k. k = ''phone'' \<and>
                (case d ''fullPhoneNumber'' of
                   JStr s \<Rightarrow> s \<noteq> [] \<and> (digit_count s < 10 \<or> 15 < digit_count s)
                 | _ \<Rightarrow> False)}
         \<union> {k. k = ''subject'' \<and> missing_or_shorter 3 (d ''subject'')}
         \<union> {k. k = ''message'' \<and> missing_or_shorter 10 (d ''message'')}"
proof -
  from assms obtain bn be e3 bs bm where
    bn: "too_short ''data.name.trim'' (d ''name'') 2 = Inr bn" and
    be: "falsy_or_fails emailRegex (d ''email'') = Inr be" and
    e3: "check_fullPhoneNumber d
       (set_if be ''email'' ''Valid email is required''
         (set_if bn ''name'' ''Valid name is required'' [])) = Inr e3" and
    bs: "too_short ''data.subject.trim'' (d ''subject'') 3 = Inr bs" and
    bm: "too_short ''data.message.trim'' (d ''message'') 10 = Inr bm" and
    e: "errors r =
       set_if bm ''message'' ''Message must be at least 10 characters''
        (set_if bs ''subject'' ''Subject is required'' e3)"
    by (rule validateFormInput_Inr)
  have bn': "bn = missing_or_shorter 2 (d ''name'')"
    using too_short_Inr[OF bn] by simp
  have bs': "bs = missing_or_shorter 3 (d ''subject'')"
    using too_short_Inr[OF bs] by simp
  have bm': "bm = missing_or_shorter 10 (d ''message'')"
    using too_short_Inr[OF bm] by simp
  show ?thesis
    unfolding e check_fullPhoneNumber_Inr[OF e3] keys_set_if keys_Nil bn'[symmetric]
      bs'[symmetric] bm'[symmetric] falsy_or_fails_Inr[OF be, symmetric]
    by auto
qed

lemma validateFormInput_returns:
  "(\<exists>r. validateFormInput d = Inr r) \<longleftrightarrow>
     falsy_or_string (d ''name'') \<and> printable (d ''email'')
     \<and> falsy_or_string (d ''fullPhoneNumber'')
     \<and> falsy_or_string (d ''subject'') \<and> falsy_or_string (d ''message'')"
proof
  assume "\<exists>r. validateFormInput d = Inr r"
  then obtain r where "validateFormInput d = Inr r" ..
  then obtain bn be e3 bs bm where
    "too_short ''data.name.trim'' (d ''name'') 2 = Inr bn"
    "falsy_or_fails emailRegex (d ''email'') = Inr be"
    "check_fullPhoneNumber d
       (set_if be ''email'' ''Valid email is required''
         (set_if bn ''name'' ''Valid name is required'' [])) = Inr e3"
    "too_short ''data.subject.trim'' (d ''subject'') 3 = Inr bs"
    "too_short ''data.message.trim'' (d ''message'') 10 = Inr bm"
    by (rule validateFormInput_Inr)
  then show "falsy_or_string (d ''name'') \<and> printable (d ''email'')
     \<and> falsy_or_string (d ''fullPhoneNumber'')
     \<and> falsy_or_string (d ''subject'') \<and> falsy_or_string (d ''message'')"
    using too_short_returns falsy_or_fails_returns check_fullPhoneNumber_returns by blast
next
  assume a: "falsy_or_string (d ''name'') \<and> printable (d ''email'')
     \<and> falsy_or_string (d ''fullPhoneNumber'')
     \<and> falsy_or_string (d ''subject'') \<and> falsy_or_string (d ''message'')"
  then obtain bn where bn: "too_short ''data.name.trim'' (d ''name'') 2 = Inr bn"
    using too_short_returns by blast
  from a obtain be where be: "falsy_or_fails emailRegex (d ''email'') = Inr be"
    using falsy_or_fails_returns by blast
  from a obtain bs where bs: "too_short ''data.subject.trim'' (d ''subject'') 3 = Inr bs"
    using too_short_returns by blast
  from a obtain bm where bm: "too_short ''data.message.trim'' (d ''message'') 10 = Inr bm"
    using too_short_returns by blast
  from a obtain e3 where e3: "check_fullPhoneNumber d
       (set_if be ''email'' ''Valid email is required''
         (set_if bn ''name'' ''Valid name is required'' [])) = Inr e3"
    using check_fullPhoneNumber_returns by blast
  show "\<exists>r. validateFormInput d = Inr r"
    unfolding validateFormInput_def Let_def bn sum.case be e3 bs bm by simp
qed

lemma string_or_absent_nullish: "string_or_absent v \<Longrightarrow> nullish_or_string v"
  by (cases v) auto

lemma string_or_absent_falsy: "string_or_absent v \<Longrightarrow> falsy_or_string v"
  by (cases v) auto

lemma string_or_absent_printable: "string_or_absent v \<Longrightarrow> printable v"
  by (cases v) auto

lemma nullish_or_string_printable: "nullish_or_string v \<Longrightarrow> printable v"
  by (cases v) auto

lemma falsy_or_string_printable: "falsy_or_string v \<Longrightarrow> printable v"
  by (cases v) auto

lemma validators_total_on_strings:
  assumes "\<forall>k. string_or_absent (p k)"
  shows "\<exists>x. validateJobApplication p = Inr x" "\<exists>x. validateFormInput p = Inr x"
  unfolding validateJobApplication_returns validateFormInput_returns
  using assms string_or_absent_nullish string_or_absent_falsy string_or_absent_printable
  by blast+

section \<open>Composing the messages\<close>

lemma ToString_printable: "printable v \<Longrightarrow> \<exists>s. ToString v = Inr s"
  by (cases v) auto

lemma ToString_not_printable: "\<not> printable v \<Longrightarrow> ToString v = Inl NoPrimitive"
  by (cases v) auto

lemma printable_getenv: "printable (getenv env k)"
  by (simp add: getenv_def split: option.splits)

lemma template_ok: "list_all printable_part ps \<Longrightarrow> \<exists>s. template ps = Inr s"
proof (induction ps)
  case Nil
  show ?case by simp
next
  case (Cons p ps)
  then obtain r where r: "template ps = Inr r" by auto
  show ?case
  proof (cases p)
    case (Lit s)
    with r show ?thesis by simp
  next
    case (Sub v)
    with Cons.prems have "printable v" by simp
    then obtain s where "ToString v = Inr s" using ToString_printable by blast
    with Sub r show ?thesis by simp
  qed
qed

lemma template_throw: "\<not> list_all printable_part ps \<Longrightarrow> template ps = Inl NoPrimitive"
proof (induction ps)
  case Nil
  then show ?case by simp
next
  case (Cons p ps)
  show ?case
  proof (cases p)
    case (Lit s)
    with Cons show ?thesis by simp
  next
    case (Sub v)
    show ?thesis
    proof (cases "printable v")
      case True
      then obtain s where "ToString v = Inr s" using ToString_printable by blast
      with Sub True Cons show ?thesis by simp
    next
      case False
      with Sub show ?thesis by (simp add: ToString_not_printable)
    qed
  qed
qed

lemma from_template_ok:
  "\<exists>s. template [Lit a, Sub (getenv env k), Lit b] = Inr s"
  by (rule template_ok) (simp add: printable_getenv)

lemma mailOptions_html_ok:
  assumes "printable (body ''firstName'')" "printable (body ''lastName'')"
    "printable (body ''email'')" "printable (body ''phone'')"
    "printable (body ''jobTitle'')" "printable (body ''jobLocation'')"
  shows "\<exists>s. mailOptions_html body = Inr s"
  unfolding mailOptions_html_def by (rule template_ok) (simp add: assms)

lemma applicantMailOptions_html_ok:
  assumes "printable (body ''firstName'')"
    "printable (body ''jobTitle'')" "printable (body ''jobLocation'')"
  shows "\<exists>s. applicantMailOptions_html body = Inr s"
  unfolding applicantMailOptions_html_def by (rule template_ok) (simp add: assms)

lemma clientMailOptions_html_ok:
  assumes "printable (body ''name'')" "printable (body ''email'')"
    "printable (body ''fullPhoneNumber'')"
    "printable (body ''subject'')" "printable (body ''message'')"
  shows "\<exists>s. clientMailOptions_html body = Inr s"
  unfolding clientMailOptions_html_def by (rule template_ok) (simp add: assms phone_row_def)

lemma userMailOptions_html_ok:
  assumes "printable (body ''name'')" "printable (body ''subject'')"
  shows "\<exists>s. userMailOptions_html body = Inr s"
  unfolding userMailOptions_html_def by (rule template_ok) (simp add: assms)

lemma mailOptions_ok:
  assumes "printable (body ''firstName'')" "printable (body ''lastName'')"
    "printable (body ''email'')" "printable (body ''phone'')"
    "printable (body ''jobTitle'')" "printable (body ''jobLocation'')"
  shows "\<exists>m. mailOptions env body f = Inr m"
proof -
  obtain a where a: "template [Lit (js ''\"Job Application\" <''), Sub (getenv env ''EMAIL_USER''),
                     Lit (js ''>'')] = Inr a"
    using from_template_ok by blast
  have "\<exists>s. template [Lit (js ''Xemsoft | New Job Application | ''), Sub (body ''jobTitle''),
                     Lit (js '' | ''), Sub (body ''jobLocation''),
                     Lit (js '' - ''), Sub (body ''firstName''),
                     Lit (js '' ''), Sub (body ''lastName'')] = Inr s"
    by (rule template_ok) (simp add: assms)
  then obtain b where b: "template [Lit (js ''Xemsoft | New Job Application | ''), Sub (body ''jobTitle''),
                     Lit (js '' | ''), Sub (body ''jobLocation''),
                     Lit (js '' - ''), Sub (body ''firstName''),
                     Lit (js '' ''), Sub (body ''lastName'')] = Inr b" ..
  obtain h where h: "mailOptions_html body = Inr h"
    using mailOptions_html_ok[OF assms] by blast
  show ?thesis
    unfolding mailOptions_def a b h by simp
qed

lemma mailOptions_throw:
  assumes "\<not> printable (body ''jobTitle'') \<or> \<not> printable (body ''jobLocation'')"
  shows "mailOptions env body f = Inl NoPrimitive"
proof -
  obtain a where a: "template [Lit (js ''\"Job Application\" <''), Sub (getenv env ''EMAIL_USER''),
                     Lit (js ''>'')] = Inr a"
    using from_template_ok by blast
  have b: "template [Lit (js ''Xemsoft | New Job Application | ''), Sub (body ''jobTitle''),
                     Lit (js '' | ''), Sub (body ''jobLocation''),
                     Lit (js '' - ''), Sub (body ''firstName''),
                     Lit (js '' ''), Sub (body ''lastName'')] = Inl NoPrimitive"
  proof (rule template_throw)
    show "\<not> list_all printable_part
             [Lit (js ''Xemsoft | New Job Application | ''), Sub (body ''jobTitle''),
              Lit (js '' | ''), Sub (body ''jobLocation''),
              Lit (js '' - ''), Sub (body ''firstName''),
              Lit (js '' ''), Sub (body ''lastName'')]"
      using assms by auto
  qed
  show ?thesis
    unfolding mailOptions_def a b by simp
qed

lemma mailOptions_Inr:
  assumes "mailOptions env body f = Inr m"
  shows "to m = getenv env ''CLIENT_EMAIL''" "cc m = Some (getenv env ''HR_EMAIL'')"
    "attachments m \<noteq> []"
  using assms unfolding mailOptions_def by (auto split: sum.splits)

lemma applicantMailOptions_ok:
  assumes "printable (body ''firstName'')"
    "printable (body ''jobTitle'')" "printable (body ''jobLocation'')"
  shows "\<exists>m. applicantMailOptions env body = Inr m"
proof -
  obtain a where a: "template [Lit (js ''\"Xemsoft\" <''), Sub (getenv env ''EMAIL_USER''),
                     Lit (js ''>'')] = Inr a"
    using from_template_ok by blast
  obtain h where h: "applicantMailOptions_html body = Inr h"
    using applicantMailOptions_html_ok[OF assms] by blast
  show ?thesis
    unfolding applicantMailOptions_def a h by simp
qed

lemma applicantMailOptions_Inr:
  assumes "applicantMailOptions env body = Inr m"
  shows "to m = body ''email''" "cc m = None" "attachments m = []"
  using assms unfolding applicantMailOptions_def by (auto split: sum.splits)

lemma contact_notification_ok:
  assumes "printable (body ''name'')" "printable (body ''email'')"
    "printable (body ''fullPhoneNumber'')"
    "printable (body ''subject'')" "printable (body ''message'')"
  shows "\<exists>m. contact_notification copy env body = Inr m"
proof -
  obtain a where a: "template [Lit (js ''\"Contact Form\" <''), Sub (getenv env ''EMAIL_USER''),
                     Lit (js ''>'')] = Inr a"
    using from_template_ok by blast
  have "\<exists>s. template [Lit (js ''Xemsoft | New Contact Form Submission: ''),
                     Sub (body ''subject'')] = Inr s"
    by (rule template_ok) (simp add: assms)
  then obtain b where b: "template [Lit (js ''Xemsoft | New Contact Form Submission: ''),
                     Sub (body ''subject'')] = Inr b" ..
  obtain h where h: "clientMailOptions_html body = Inr h"
    using clientMailOptions_html_ok[OF assms] by blast
  show ?thesis
    unfolding contact_notification_def a b h by simp
qed

lemma contact_notification_Inr:
  assumes "contact_notification copy env body = Inr m"
  shows "to m = getenv env ''CLIENT_EMAIL''" "cc m = copy" "attachments m = []"
  using assms unfolding contact_notification_def by (auto split: sum.splits)

lemma userMailOptions_ok:
  assumes "printable (body ''name'')" "printable (body ''subject'')"
  shows "\<exists>m. userMailOptions env body = Inr m"
proof -
  obtain a where a: "template [Lit (js ''\"Xemsoft\" <''), Sub (getenv env ''EMAIL_USER''),
                     Lit (js ''>'')] = Inr a"
    using from_template_ok by blast
  obtain h where h: "userMailOptions_html body = Inr h"
    using userMailOptions_html_ok[OF assms] by blast
  show ?thesis
    unfolding userMailOptions_def a h by simp
qed

lemma userMailOptions_Inr:
  assumes "userMailOptions env body = Inr m"
  shows "to m = body ''email''" "cc m = None" "attachments m = []"
  using assms unfolding userMailOptions_def by (auto split: sum.splits)

section \<open>What the handlers do\<close>

lemma Promise_all_Inr:
  "(Promise_all b o1 o2 = Inr u) \<longleftrightarrow> o1 = Fulfilled \<and> o2 = Fulfilled"
  by (cases o1; cases o2) simp_all

lemma Promise_all_Inl:
  "Promise_all b o1 o2 = Inl e \<Longrightarrow> \<exists>m. e = SendFailed m \<and> (o1 = Rejected m \<or> o2 = Rejected m)"
  by (cases o1; cases o2) auto

lemma both_or_500_sent: "both_or_500 tr m a f h \<Longrightarrow> sent h = [m, a]"
  unfolding both_or_500_def by blast


lemma dispatch_both_or_500:
  assumes "h = (case Promise_all b (sendMail tr m) (sendMail tr a) of
                  Inl error \<Rightarrow> caught failure [m, a] error
                | Inr u \<Rightarrow> \<lparr>sent = [m, a], res = \<lparr>status = 200, json = Message ok\<rparr>\<rparr>)"
  shows "both_or_500 tr m a failure h"
proof (cases "Promise_all b (sendMail tr m) (sendMail tr a)")
  case (Inl e)
  then obtain x where x: "e = SendFailed x" "sendMail tr m = Rejected x \<or> sendMail tr a = Rejected x"
    using Promise_all_Inl by blast
  have h: "h = \<lparr>sent = [m, a], res = \<lparr>status = 500, json = Failure failure x\<rparr>\<rparr>"
    using assms Inl x(1) by (simp add: caught_def)
  have "\<not> (sendMail tr m = Fulfilled \<and> sendMail tr a = Fulfilled)"
    using x(2) by auto
  then show ?thesis
    using x(2) unfolding both_or_500_def h by auto
next
  case (Inr u)
  then have f: "sendMail tr m = Fulfilled" "sendMail tr a = Fulfilled"
    by (simp_all add: Promise_all_Inr)
  have h: "h = \<lparr>sent = [m, a], res = \<lparr>status = 200, json = Message ok\<rparr>\<rparr>"
    using assms Inr by simp
  show ?thesis
    using f unfolding both_or_500_def h by simp
qed

lemma post_job_application_throw:
  "validateJobApplication (req_body req) = Inl e \<Longrightarrow>
     post_job_application env tr req =
       caught ''Failed to submit application. Please try again later.'' [] e"
  by (simp add: post_job_application_def)

lemma post_job_application_invalid:
  "validateJobApplication (req_body req) = Inr v \<Longrightarrow> \<not> isValid v \<Longrightarrow>
     post_job_application env tr req = \<lparr>sent = [], res = \<lparr>status = 400, json = Errors (errors v)\<rparr>\<rparr>"
  by (simp add: post_job_application_def)

lemma post_job_application_no_file:
  "validateJobApplication (req_body req) = Inr v \<Longrightarrow> isValid v \<Longrightarrow> req_file req = None \<Longrightarrow>
     post_job_application env tr req =
       \<lparr>sent = [], res = \<lparr>status = 400, json = Errors [(''file'', ''Resume is required'')]\<rparr>\<rparr>"
  by (simp add: post_job_application_def)

lemma post_job_application_compose_throw:
  assumes "validateJobApplication (req_body req) = Inr v" "isValid v" "req_file req = Some f"
    and "mailOptions env (req_body req) f = Inl e
         \<or> (\<exists>m. mailOptions env (req_body req) f = Inr m)
            \<and> applicantMailOptions env (req_body req) = Inl e"
  shows "post_job_application env tr req =
           caught ''Failed to submit application. Please try again later.'' [] e"
  using assms by (auto simp: post_job_application_def)

lemma post_job_application_dispatch:
  assumes "validateJobApplication (req_body req) = Inr v" "isValid v" "req_file req = Some f"
    and "mailOptions env (req_body req) f = Inr m"
    and "applicantMailOptions env (req_body req) = Inr a"
  shows "both_or_500 tr m a ''Failed to submit application. Please try again later.''
           (post_job_application env tr req)"
  by (rule dispatch_both_or_500) (simp add: post_job_application_def assms)

lemma contact_with_throw:
  "validateFormInput body = Inl e \<Longrightarrow>
     contact_with client env tr body =
       caught ''Failed to submit form. Please try again later.'' [] e"
  by (simp add: contact_with_def)

lemma contact_with_invalid:
  "validateFormInput body = Inr v \<Longrightarrow> \<not> isValid v \<Longrightarrow>
     contact_with client env tr body = \<lparr>sent = [], res = \<lparr>status = 400, json = Errors (errors v)\<rparr>\<rparr>"
  by (simp add: contact_with_def)

lemma contact_with_compose_throw:
  assumes "validateFormInput body = Inr v" "isValid v"
    and "client env body = Inl e
         \<or> (\<exists>c. client env body = Inr c) \<and> userMailOptions env body = Inl e"
  shows "contact_with client env tr body =
           caught ''Failed to submit form. Please try again later.'' [] e"
  using assms by (auto simp: contact_with_def)

lemma contact_with_dispatch:
  assumes "validateFormInput body = Inr v" "isValid v"
    and "client env body = Inr c" and "userMailOptions env body = Inr u"
  shows "both_or_500 tr c u ''Failed to submit form. Please try again later.''
           (contact_with client env tr body)"
  by (rule dispatch_both_or_500) (simp add: contact_with_def assms)

text \<open>Once a validator has returned, every field it looked at has a string conversion.\<close>

lemma job_fields_printable:
  assumes "validateJobApplication d = Inr r"
  shows "printable (d ''firstName'')" "printable (d ''lastName'')"
    "printable (d ''email'')" "printable (d ''phone'')"
proof -
  from assms have "\<exists>r. validateJobApplication d = Inr r" by blast
  then have "nullish_or_string (d ''firstName'') \<and> nullish_or_string (d ''lastName'')
     \<and> printable (d ''email'') \<and> printable (d ''phone'')"
    unfolding validateJobApplication_returns .
  then show "printable (d ''firstName'')" "printable (d ''lastName'')"
    "printable (d ''email'')" "printable (d ''phone'')"
    using nullish_or_string_printable by blast+
qed

lemma contact_fields_printable:
  assumes "validateFormInput d = Inr r"
  shows "printable (d ''name'')" "printable (d ''email'')" "printable (d ''fullPhoneNumber'')"
    "printable (d ''subject'')" "printable (d ''message'')"
proof -
  from assms have "\<exists>r. validateFormInput d = Inr r" by blast
  then have "falsy_or_string (d ''name'') \<and> printable (d ''email'')
     \<and> falsy_or_string (d ''fullPhoneNumber'')
     \<and> falsy_or_string (d ''subject'') \<and> falsy_or_string (d ''message'')"
    unfolding validateFormInput_returns .
  then show "printable (d ''name'')" "printable (d ''email'')" "printable (d ''fullPhoneNumber'')"
    "printable (d ''subject'')" "printable (d ''message'')"
    using falsy_or_string_printable by blast+
qed

lemma job_compose_ok:
  assumes "validateJobApplication d = Inr r"
    and "printable (d ''jobTitle'')" "printable (d ''jobLocation'')"
  shows "\<exists>m a. mailOptions env d f = Inr m \<and> applicantMailOptions env d = Inr a"
  using mailOptions_ok[OF job_fields_printable[OF assms(1)] assms(2,3)]
    applicantMailOptions_ok[OF job_fields_printable(1)[OF assms(1)] assms(2,3)]
  by blast

lemma contact_compose_ok:
  assumes "validateFormInput d = Inr r"
  shows "\<exists>c u. contact_notification copy env d = Inr c \<and> userMailOptions env d = Inr u"
  using contact_notification_ok[OF contact_fields_printable[OF assms]]
    userMailOptions_ok[OF contact_fields_printable(1,4)[OF assms]]
  by blast

section \<open>The sample requests, evaluated\<close>

lemma sample_application_valid:
  "validateJobApplication sample_application = Inr \<lparr>isValid = True, errors = []\<rparr>"
  by code_simp

lemma sample_contact_valid:
  "validateFormInput sample_contact = Inr \<lparr>isValid = True, errors = []\<rparr>"
  by code_simp

lemma empty_application_invalid:
  "validateJobApplication empty_object =
     Inr \<lparr>isValid = False,
          errors = [(''firstName'', ''First name is required''),
                    (''lastName'', ''Last name is required''),
                    (''email'', ''Valid email is required''),
                    (''phone'', ''Valid phone number is required'')]\<rparr>"
  by code_simp

lemma empty_contact_invalid:
  "validateFormInput empty_object =
     Inr \<lparr>isValid = False,
          errors = [(''name'', ''Valid name is required''),
                    (''email'', ''Valid email is required''),
                    (''subject'', ''Subject is required''),
                    (''message'', ''Message must be at least 10 characters'')]\<rparr>"
  by code_simp

lemma string_or_absent_object_of:
  "list_all (\<lambda>kv. string_or_absent (snd kv)) kvs \<Longrightarrow> string_or_absent (object_of kvs k)"
  by (induction kvs) (auto simp: object_of_def)

section \<open>The claims\<close>

text \<open>
  C2. Whatever the payload, a result returned by either validator has \<open>isValid\<close> true
  exactly when its errors mapping is empty; and a payload whose fields are strings or
  absent does get a result.
\<close>

theorem isValid_iff_no_errors:
  "(validateJobApplication d = Inr r \<longrightarrow> (isValid r \<longleftrightarrow> errors r = []))
   \<and> (validateFormInput d' = Inr r' \<longrightarrow> (isValid r' \<longleftrightarrow> errors r' = []))
   \<and> ((\<forall>k. string_or_absent (p k)) \<longrightarrow>
        (\<exists>x. validateJobApplication p = Inr x) \<and> (\<exists>x. validateFormInput p = Inr x))"
proof (intro conjI impI)
  assume "validateJobApplication d = Inr r"
  then show "isValid r \<longleftrightarrow> errors r = []" by (rule validateJobApplication_isValid)
next
  assume "validateFormInput d' = Inr r'"
  then show "isValid r' \<longleftrightarrow> errors r' = []" by (rule validateFormInput_isValid)
next
  assume a: "\<forall>k. string_or_absent (p k)"
  then show "\<exists>x. validateJobApplication p = Inr x"
    by (rule validators_total_on_strings)
next
  assume a: "\<forall>k. string_or_absent (p k)"
  then show "\<exists>x. validateFormInput p = Inr x"
    by (rule validators_total_on_strings)
qed

theorem isValid_iff_no_errors_witness:
  "validateJobApplication empty_object
     = Inr \<lparr>isValid = False,
            errors = [(''firstName'', ''First name is required''),
                      (''lastName'', ''Last name is required''),
                      (''email'', ''Valid email is required''),
                      (''phone'', ''Valid phone number is required'')]\<rparr>
   \<and> validateFormInput sample_contact = Inr \<lparr>isValid = True, errors = []\<rparr>
   \<and> (\<forall>k. string_or_absent (sample_contact k))
   \<and> (\<exists>x. validateJobApplication sample_contact = Inr x)
   \<and> (\<exists>x. validateFormInput sample_contact = Inr x)"
proof -
  note T = isValid_iff_no_errors[of empty_object
      "\<lparr>isValid = False,
            errors = [(''firstName'', ''First name is required''),
                      (''lastName'', ''Last name is required''),
                      (''email'', ''Valid email is required''),
                      (''phone'', ''Valid phone number is required'')]\<rparr>"
      sample_contact "\<lparr>isValid = True, errors = []\<rparr>" sample_contact]
  have s: "\<forall>k. string_or_absent (sample_contact k)"
    unfolding sample_contact_def by (intro allI string_or_absent_object_of) simp
  from T s have "(\<exists>x. validateJobApplication sample_contact = Inr x)
      \<and> (\<exists>x. validateFormInput sample_contact = Inr x)"
    by blast
  with empty_application_invalid sample_contact_valid s show ?thesis
    by blast
qed

lemma email_key:
  assumes "validateJobApplication d = Inr r \<or> validateFormInput d = Inr r"
  shows "''email'' \<in> set (keys (errors r)) \<longleftrightarrow> violates emailRegex (d ''email'')"
  using assms
proof
  assume v: "validateJobApplication d = Inr r"
  show ?thesis unfolding validateJobApplication_keys[OF v] by simp
next
  assume v: "validateFormInput d = Inr r"
  show ?thesis unfolding validateFormInput_keys[OF v] by simp
qed

lemma spec_email_pattern_Nil: "\<not> spec_email_pattern []"
  by (simp add: spec_email_pattern_def)

lemma email_key_string:
  assumes "validateJobApplication d = Inr r \<or> validateFormInput d = Inr r"
    and "d ''email'' = JStr s"
  shows "''email'' \<notin> set (keys (errors r)) \<longleftrightarrow> spec_email_pattern s"
proof (cases "s = []")
  case True
  then show ?thesis
    unfolding email_key[OF assms(1)] assms(2) violates_string
    by (simp add: spec_email_pattern_Nil)
next
  case False
  then show ?thesis
    unfolding email_key[OF assms(1)] assms(2) violates_string
    by (simp add: emailRegex_spec)
qed

lemma email_examples:
  "spec_email_pattern (js ''a@b.com'')" "\<not> spec_email_pattern (js ''a@b'')"
  "\<not> spec_email_pattern (js ''a.com'')"
  unfolding emailRegex_spec[symmetric] by code_simp+

text \<open>
  C4. In a result of either validator, an email field that holds a string is accepted
  (no \<open>email\<close> error) exactly when the string is a non-empty run of characters that are
  neither whitespace nor \<^verbatim>\<open>@\<close>, then \<^verbatim>\<open>@\<close>, then such a run, then \<^verbatim>\<open>.\<close>, then such a
  run. So \<^verbatim>\<open>a@b.com\<close> is accepted, and \<^verbatim>\<open>a@b\<close> and \<^verbatim>\<open>a.com\<close> each get an email error.
\<close>

theorem email_accepted_iff_pattern:
  "((validateJobApplication d = Inr r \<or> validateFormInput d = Inr r) \<and> d ''email'' = JStr s \<longrightarrow>
      (''email'' \<notin> set (keys (errors r)) \<longleftrightarrow> spec_email_pattern s))
   \<and> ((validateJobApplication d = Inr r \<or> validateFormInput d = Inr r)
        \<and> d ''email'' = JStr (js ''a@b.com'') \<longrightarrow> ''email'' \<notin> set (keys (errors r)))
   \<and> ((validateJobApplication d = Inr r \<or> validateFormInput d = Inr r)
        \<and> (d ''email'' = JStr (js ''a@b'') \<or> d ''email'' = JStr (js ''a.com''))
        \<longrightarrow> ''email'' \<in> set (keys (errors r)))"
proof (intro conjI impI)
  assume "(validateJobApplication d = Inr r \<or> validateFormInput d = Inr r) \<and> d ''email'' = JStr s"
  then show "''email'' \<notin> set (keys (errors r)) \<longleftrightarrow> spec_email_pattern s"
    using email_key_string by blast
next
  assume "(validateJobApplication d = Inr r \<or> validateFormInput d = Inr r)
        \<and> d ''email'' = JStr (js ''a@b.com'')"
  then have "''email'' \<notin> set (keys (errors r)) \<longleftrightarrow> spec_email_pattern (js ''a@b.com'')"
    using email_key_string by blast
  then show "''email'' \<notin> set (keys (errors r))"
    using email_examples(1) by blast
next
  assume a: "(validateJobApplication d = Inr r \<or> validateFormInput d = Inr r)
        \<and> (d ''email'' = JStr (js ''a@b'') \<or> d ''email'' = JStr (js ''a.com''))"
  then consider "d ''email'' = JStr (js ''a@b'')" | "d ''email'' = JStr (js ''a.com'')"
    by blast
  then show "''email'' \<in> set (keys (errors r))"
  proof cases
    case 1
    with a have "''email'' \<notin> set (keys (errors r)) \<longleftrightarrow> spec_email_pattern (js ''a@b'')"
      using email_key_string by blast
    then show ?thesis using email_examples(2) by blast
  next
    case 2
    with a have "''email'' \<notin> set (keys (errors r)) \<longleftrightarrow> spec_email_pattern (js ''a.com'')"
      using email_key_string by blast
    then show ?thesis using email_examples(3) by blast
  qed
qed

lemma sample_application_email: "sample_application ''email'' = JStr (js ''a@b.com'')"
  by (simp add: sample_application_def object_of_def)

lemma sample_contact_email: "sample_contact ''email'' = JStr (js ''a@b.com'')"
  by (simp add: sample_contact_def object_of_def)

lemma contact_bad_email:
  "validateFormInput (sample_contact(''email'' := JStr (js ''a@b''))) =
     Inr \<lparr>isValid = False, errors = [(''email'', ''Valid email is required'')]\<rparr>"
  by code_simp

theorem email_accepted_iff_pattern_witness:
  "validateJobApplication sample_application = Inr \<lparr>isValid = True, errors = []\<rparr>
   \<and> sample_application ''email'' = JStr (js ''a@b.com'')
   \<and> validateFormInput sample_contact = Inr \<lparr>isValid = True, errors = []\<rparr>
   \<and> sample_contact ''email'' = JStr (js ''a@b.com'')
   \<and> spec_email_pattern (js ''a@b.com'')
   \<and> validateFormInput (sample_contact(''email'' := JStr (js ''a@b''))) =
        Inr \<lparr>isValid = False, errors = [(''email'', ''Valid email is required'')]\<rparr>
   \<and> ''email'' \<in> set (keys [(''email'', ''Valid email is required'')])
   \<and> \<not> spec_email_pattern (js ''a@b'')"
proof -
  note J = email_accepted_iff_pattern[of sample_application "\<lparr>isValid = True, errors = []\<rparr>" "js ''a@b.com''"]
  note F = email_accepted_iff_pattern[of sample_contact "\<lparr>isValid = True, errors = []\<rparr>" "js ''a@b.com''"]
  note B = email_accepted_iff_pattern[of "sample_contact(''email'' := JStr (js ''a@b''))"
              "\<lparr>isValid = False, errors = [(''email'', ''Valid email is required'')]\<rparr>" "js ''a@b''"]
  have e: "''email'' \<notin> set (keys (errors \<lparr>isValid = True, errors = []\<rparr>))"
    by (simp add: keys_def)
  have p: "spec_email_pattern (js ''a@b.com'')"
    using J[THEN conjunct1] F[THEN conjunct1] sample_application_valid sample_application_email
      sample_contact_valid sample_contact_email e
    by blast
  have b: "''email'' \<in> set (keys (errors \<lparr>isValid = False, errors = [(''email'', ''Valid email is required'')]\<rparr>))"
    using B[THEN conjunct2, THEN conjunct2] contact_bad_email by simp
  then have b': "''email'' \<in> set (keys [(''email'', ''Valid email is required'')])"
    by simp
  have n: "\<not> spec_email_pattern (js ''a@b'')"
    using B[THEN conjunct1] contact_bad_email b by simp
  from p b' n sample_application_valid sample_application_email sample_contact_valid
    sample_contact_email contact_bad_email
  show ?thesis by (intro conjI)
qed

lemma phone_key:
  assumes v: "validateJobApplication d = Inr r"
  shows "''phone'' \<in> set (keys (errors r)) \<longleftrightarrow> violates phoneRegex (d ''phone'')"
  unfolding validateJobApplication_keys[OF v] by simp

lemma phone_shape_Nil: "\<not> phone_shape p []"
  by (simp add: phone_shape_def)

lemma phone_key_string:
  assumes "validateJobApplication d = Inr r" and "d ''phone'' = JStr s"
  shows "''phone'' \<notin> set (keys (errors r)) \<longleftrightarrow> phone_shape digit_white_hyphen_paren s"
proof (cases "s = []")
  case True
  then show ?thesis
    unfolding phone_key[OF assms(1)] assms(2) violates_string
    by (simp add: phone_shape_Nil)
next
  case False
  then show ?thesis
    unfolding phone_key[OF assms(1)] assms(2) violates_string
    by (simp add: phoneRegex_spec)
qed

lemma phone_examples:
  "phone_shape digit_white_hyphen_paren (js ''+1 (555) 123-4567'')"
  "\<not> phone_shape digit_white_hyphen_paren (js ''abc'')"
  unfolding phoneRegex_spec[symmetric] by code_simp+

lemma tabs_accepted:
  "validateJobApplication (sample_application(''phone'' := JStr [9, 9, 9, 9, 9, 9, 9, 9, 9, 9]))
     = Inr \<lparr>isValid = True, errors = []\<rparr>"
  by code_simp

lemma tabs_not_spaces:
  "\<not> phone_shape digit_space_hyphen_paren [9, 9, 9, 9, 9, 9, 9, 9, 9, 9]"
  by code_simp

text \<open>
  C6, as the claim words it, fails: ten tab characters are no digit, space, hyphen or
  parenthesis, and the job-application validator accepts them as a phone number.
\<close>

theorem phone_claimed_shape_counterexample:
  "validateJobApplication (sample_application(''phone'' := JStr [9, 9, 9, 9, 9, 9, 9, 9, 9, 9]))
     = Inr \<lparr>isValid = True, errors = []\<rparr>
   \<and> ''phone'' \<notin> set (keys (errors \<lparr>isValid = True, errors = []\<rparr>))
   \<and> \<not> phone_shape digit_space_hyphen_paren [9, 9, 9, 9, 9, 9, 9, 9, 9, 9]"
  using tabs_accepted tabs_not_spaces by (simp add: keys_def)

text \<open>
  C6, amended. In a result of the job-application validator, a phone field that holds a
  string is accepted exactly when the string is an optional leading \<^verbatim>\<open>+\<close> followed by at
  least 10 characters, each a digit, a whitespace character (any character of \<^verbatim>\<open>\s\<close>,
  not only the space), a hyphen or a parenthesis. So \<^verbatim>\<open>+1 (555) 123-4567\<close> is accepted
  and \<^verbatim>\<open>abc\<close> gets a phone error.
\<close>

theorem phone_accepted_iff_shape:
  "(validateJobApplication d = Inr r \<and> d ''phone'' = JStr s \<longrightarrow>
      (''phone'' \<notin> set (keys (errors r)) \<longleftrightarrow> phone_shape digit_white_hyphen_paren s))
   \<and> (validateJobApplication d = Inr r \<and> d ''phone'' = JStr (js ''+1 (555) 123-4567'')
        \<longrightarrow> ''phone'' \<notin> set (keys (errors r)))
   \<and> (validateJobApplication d = Inr r \<and> d ''phone'' = JStr (js ''abc'')
        \<longrightarrow> ''phone'' \<in> set (keys (errors r)))"
proof (intro conjI impI)
  assume "validateJobApplication d = Inr r \<and> d ''phone'' = JStr s"
  then show "''phone'' \<notin> set (keys (errors r)) \<longleftrightarrow> phone_shape digit_white_hyphen_paren s"
    using phone_key_string by blast
next
  assume "validateJobApplication d = Inr r \<and> d ''phone'' = JStr (js ''+1 (555) 123-4567'')"
  then have "''phone'' \<notin> set (keys (errors r))
      \<longleftrightarrow> phone_shape digit_white_hyphen_paren (js ''+1 (555) 123-4567'')"
    using phone_key_string by blast
  then show "''phone'' \<notin> set (keys (errors r))"
    using phone_examples(1) by blast
next
  assume "validateJobApplication d = Inr r \<and> d ''phone'' = JStr (js ''abc'')"
  then have "''phone'' \<notin> set (keys (errors r))
      \<longleftrightarrow> phone_shape digit_white_hyphen_paren (js ''abc'')"
    using phone_key_string by blast
  then show "''phone'' \<in> set (keys (errors r))"
    using phone_examples(2) by blast
qed

lemma sample_application_phone: "sample_application ''phone'' = JStr (js ''+1 (555) 123-4567'')"
  by (simp add: sample_application_def object_of_def)

lemma application_bad_phone:
  "validateJobApplication (sample_application(''phone'' := JStr (js ''abc''))) =
     Inr \<lparr>isValid = False, errors = [(''phone'', ''Valid phone number is required'')]\<rparr>"
  by code_simp

theorem phone_accepted_iff_shape_witness:
  "validateJobApplication sample_application = Inr \<lparr>isValid = True, errors = []\<rparr>
   \<and> sample_application ''phone'' = JStr (js ''+1 (555) 123-4567'')
   \<and> phone_shape digit_white_hyphen_paren (js ''+1 (555) 123-4567'')
   \<and> validateJobApplication (sample_application(''phone'' := JStr (js ''abc''))) =
        Inr \<lparr>isValid = False, errors = [(''phone'', ''Valid phone number is required'')]\<rparr>
   \<and> ''phone'' \<in> set (keys [(''phone'', ''Valid phone number is required'')])
   \<and> \<not> phone_shape digit_white_hyphen_paren (js ''abc'')"
proof -
  note J = phone_accepted_iff_shape[of sample_application "\<lparr>isValid = True, errors = []\<rparr>"
              "js ''+1 (555) 123-4567''"]
  note B = phone_accepted_iff_shape[of "sample_application(''phone'' := JStr (js ''abc''))"
              "\<lparr>isValid = False, errors = [(''phone'', ''Valid phone number is required'')]\<rparr>"
              "js ''abc''"]
  have e: "''phone'' \<notin> set (keys (errors \<lparr>isValid = True, errors = []\<rparr>))"
    by (simp add: keys_def)
  have p: "phone_shape digit_white_hyphen_paren (js ''+1 (555) 123-4567'')"
    using J[THEN conjunct1] sample_application_valid sample_application_phone e
    by blast
  have b: "''phone'' \<in> set (keys (errors \<lparr>isValid = False,
              errors = [(''phone'', ''Valid phone number is required'')]\<rparr>))"
    using B[THEN conjunct2, THEN conjunct2] application_bad_phone by simp
  then have b': "''phone'' \<in> set (keys [(''phone'', ''Valid phone number is required'')])"
    by simp
  have n: "\<not> phone_shape digit_white_hyphen_paren (js ''abc'')"
    using B[THEN conjunct1] application_bad_phone b by simp
  from p b' n sample_application_valid sample_application_phone application_bad_phone
  show ?thesis by (intro conjI)
qed

lemma contact_phone_key:
  assumes v: "validateFormInput d = Inr r"
  shows "''phone'' \<in> set (keys (errors r)) \<longleftrightarrow>
           (case d ''fullPhoneNumber'' of
              JStr s \<Rightarrow> s \<noteq> [] \<and> (digit_count s < 10 \<or> 15 < digit_count s)
            | _ \<Rightarrow> False)"
  unfolding validateFormInput_keys[OF v] by simp

lemma contact_phone_falsy:
  assumes "validateFormInput d = Inr r" "\<not> truthy (d ''fullPhoneNumber'')"
  shows "''phone'' \<notin> set (keys (errors r))"
proof (cases "d ''fullPhoneNumber''")
  case JUndefined
  then show ?thesis unfolding contact_phone_key[OF assms(1)] by simp
next
  case JNull
  then show ?thesis unfolding contact_phone_key[OF assms(1)] by simp
next
  case (JStr s)
  with assms(2) show ?thesis unfolding contact_phone_key[OF assms(1)] by simp
next
  case (JOther t s)
  then show ?thesis unfolding contact_phone_key[OF assms(1)] by simp
next
  case JOpaque
  then show ?thesis unfolding contact_phone_key[OF assms(1)] by simp
qed

lemma contact_phone_string:
  assumes "validateFormInput d = Inr r" "d ''fullPhoneNumber'' = JStr s" "s \<noteq> []"
  shows "''phone'' \<in> set (keys (errors r)) \<longleftrightarrow>
           length (replace_all NonDigit [] s) < 10 \<or> 15 < length (replace_all NonDigit [] s)"
  unfolding contact_phone_key[OF assms(1)] assms(2) replace_NonDigit
  using assms(3) by (simp add: digit_count_def)

lemma digit_count_examples:
  "digit_count (js ''123-456-7890'') = 10" "digit_count (js ''12345'') = 5"
  by code_simp+

lemma js_nonempty: "js ''123-456-7890'' \<noteq> []" "js ''12345'' \<noteq> []"
  by (simp_all add: js_def)

lemma empty_phone_accepted:
  "validateFormInput (sample_contact(''fullPhoneNumber'' := JStr []))
     = Inr \<lparr>isValid = True, errors = []\<rparr>"
  by code_simp

text \<open>
  C7, as the claim words it, fails: an empty \<open>fullPhoneNumber\<close> is present and has no
  digits, which is outside 10 to 15, and the validator records no phone error.
\<close>

theorem contact_phone_present_counterexample:
  "validateFormInput (sample_contact(''fullPhoneNumber'' := JStr []))
     = Inr \<lparr>isValid = True, errors = []\<rparr>
   \<and> (sample_contact(''fullPhoneNumber'' := JStr [])) ''fullPhoneNumber'' = JStr []
   \<and> ''phone'' \<notin> set (keys (errors \<lparr>isValid = True, errors = []\<rparr>))
   \<and> (length (replace_all NonDigit [] []) < 10 \<or> 15 < length (replace_all NonDigit [] []))"
  using empty_phone_accepted by (simp add: keys_def replace_all_def)

text \<open>
  C7, amended. In a result of the contact validator: when \<open>fullPhoneNumber\<close> is absent
  or empty (any falsy value) there is no phone error; when it is a non-empty string, every
  non-digit character is stripped and there is a phone error exactly when the number of
  digits left is below 10 or above 15. So \<^verbatim>\<open>123-456-7890\<close> is accepted, \<^verbatim>\<open>12345\<close> is
  rejected, and so is any string with 16 or more digits.
\<close>

theorem contact_phone_rule:
  "(validateFormInput d = Inr r \<and> \<not> truthy (d ''fullPhoneNumber'')
      \<longrightarrow> ''phone'' \<notin> set (keys (errors r)))
   \<and> (validateFormInput d = Inr r \<and> d ''fullPhoneNumber'' = JStr s \<and> s \<noteq> [] \<longrightarrow>
        replace_all NonDigit [] s = filter isDigit s
        \<and> (''phone'' \<in> set (keys (errors r)) \<longleftrightarrow>
             length (replace_all NonDigit [] s) < 10 \<or> 15 < length (replace_all NonDigit [] s)))
   \<and> (validateFormInput d = Inr r \<and> d ''fullPhoneNumber'' = JStr (js ''123-456-7890'')
        \<longrightarrow> ''phone'' \<notin> set (keys (errors r)))
   \<and> (validateFormInput d = Inr r \<and> d ''fullPhoneNumber'' = JStr (js ''12345'')
        \<longrightarrow> ''phone'' \<in> set (keys (errors r)))
   \<and> (validateFormInput d = Inr r \<and> d ''fullPhoneNumber'' = JStr s \<and> 16 \<le> digit_count s
        \<longrightarrow> ''phone'' \<in> set (keys (errors r)))"
proof (intro conjI impI)
  assume "validateFormInput d = Inr r \<and> \<not> truthy (d ''fullPhoneNumber'')"
  then show "''phone'' \<notin> set (keys (errors r))"
    using contact_phone_falsy by blast
next
  show "replace_all NonDigit [] s = filter isDigit s"
    by (rule replace_NonDigit)
next
  assume "validateFormInput d = Inr r \<and> d ''fullPhoneNumber'' = JStr s \<and> s \<noteq> []"
  then show "''phone'' \<in> set (keys (errors r)) \<longleftrightarrow>
             length (replace_all NonDigit [] s) < 10 \<or> 15 < length (replace_all NonDigit [] s)"
    using contact_phone_string by blast
next
  assume a: "validateFormInput d = Inr r \<and> d ''fullPhoneNumber'' = JStr (js ''123-456-7890'')"
  then have "''phone'' \<in> set (keys (errors r)) \<longleftrightarrow>
      length (replace_all NonDigit [] (js ''123-456-7890'')) < 10
      \<or> 15 < length (replace_all NonDigit [] (js ''123-456-7890''))"
    using contact_phone_string js_nonempty(1) by blast
  then show "''phone'' \<notin> set (keys (errors r))"
    using digit_count_examples(1) by (simp add: replace_NonDigit digit_count_def)
next
  assume a: "validateFormInput d = Inr r \<and> d ''fullPhoneNumber'' = JStr (js ''12345'')"
  then have "''phone'' \<in> set (keys (errors r)) \<longleftrightarrow>
      length (replace_all NonDigit [] (js ''12345'')) < 10
      \<or> 15 < length (replace_all NonDigit [] (js ''12345''))"
    using contact_phone_string js_nonempty(2) by blast
  then show "''phone'' \<in> set (keys (errors r))"
    using digit_count_examples(2) by (simp add: replace_NonDigit digit_count_def)
next
  assume a: "validateFormInput d = Inr r \<and> d ''fullPhoneNumber'' = JStr s \<and> 16 \<le> digit_count s"
  then have "s \<noteq> []" by (auto simp: digit_count_def)
  with a have "''phone'' \<in> set (keys (errors r)) \<longleftrightarrow>
      length (replace_all NonDigit [] s) < 10 \<or> 15 < length (replace_all NonDigit [] s)"
    using contact_phone_string by blast
  with a show "''phone'' \<in> set (keys (errors r))"
    by (simp add: replace_NonDigit digit_count_def)
qed

lemma sample_contact_phone: "sample_contact ''fullPhoneNumber'' = JStr (js ''123-456-7890'')"
  by (simp add: sample_contact_def object_of_def)

lemma contact_short_phone:
  "validateFormInput (sample_contact(''fullPhoneNumber'' := JStr (js ''12345''))) =
     Inr \<lparr>isValid = False, errors = [(''phone'', ''Invalid phone number length'')]\<rparr>"
  by code_simp

lemma contact_long_phone:
  "validateFormInput (sample_contact(''fullPhoneNumber'' := JStr (js ''1234567890123456''))) =
     Inr \<lparr>isValid = False, errors = [(''phone'', ''Invalid phone number length'')]\<rparr>"
  by code_simp

lemma sixteen_digits: "16 \<le> digit_count (js ''1234567890123456'')"
  by code_simp

theorem contact_phone_rule_witness:
  "validateFormInput empty_object =
     Inr \<lparr>isValid = False,
          errors = [(''name'', ''Valid name is required''),
                    (''email'', ''Valid email is required''),
                    (''subject'', ''Subject is required''),
                    (''message'', ''Message must be at least 10 characters'')]\<rparr>
   \<and> \<not> truthy (empty_object ''fullPhoneNumber'')
   \<and> ''phone'' \<notin> set (keys [(''name'', ''Valid name is required''),
                    (''email'', ''Valid email is required''),
                    (''subject'', ''Subject is required''),
                    (''message'', ''Message must be at least 10 characters'')])
   \<and> validateFormInput sample_contact = Inr \<lparr>isValid = True, errors = []\<rparr>
   \<and> sample_contact ''fullPhoneNumber'' = JStr (js ''123-456-7890'')
   \<and> js ''123-456-7890'' \<noteq> []
   \<and> \<not> (length (replace_all NonDigit [] (js ''123-456-7890'')) < 10
         \<or> 15 < length (replace_all NonDigit [] (js ''123-456-7890'')))
   \<and> validateFormInput (sample_contact(''fullPhoneNumber'' := JStr (js ''12345''))) =
        Inr \<lparr>isValid = False, errors = [(''phone'', ''Invalid phone number length'')]\<rparr>
   \<and> validateFormInput (sample_contact(''fullPhoneNumber'' := JStr (js ''1234567890123456''))) =
        Inr \<lparr>isValid = False, errors = [(''phone'', ''Invalid phone number length'')]\<rparr>
   \<and> 16 \<le> digit_count (js ''1234567890123456'')
   \<and> ''phone'' \<in> set (keys [(''phone'', ''Invalid phone number length'')])"
proof -
  note E = contact_phone_rule[of empty_object
     "\<lparr>isValid = False,
          errors = [(''name'', ''Valid name is required''),
                    (''email'', ''Valid email is required''),
                    (''subject'', ''Subject is required''),
                    (''message'', ''Message must be at least 10 characters'')]\<rparr>" "[]"]
  note S = contact_phone_rule[of sample_contact "\<lparr>isValid = True, errors = []\<rparr>"
              "js ''123-456-7890''"]
  note L = contact_phone_rule[of "sample_contact(''fullPhoneNumber'' := JStr (js ''1234567890123456''))"
              "\<lparr>isValid = False, errors = [(''phone'', ''Invalid phone number length'')]\<rparr>"
              "js ''1234567890123456''"]
  note H = contact_phone_rule[of "sample_contact(''fullPhoneNumber'' := JStr (js ''12345''))"
              "\<lparr>isValid = False, errors = [(''phone'', ''Invalid phone number length'')]\<rparr>"
              "js ''12345''"]
  have f: "\<not> truthy (empty_object ''fullPhoneNumber'')"
    by (simp add: empty_object_def)
  have p1: "''phone'' \<notin> set (keys [(''name'', ''Valid name is required''),
                    (''email'', ''Valid email is required''),
                    (''subject'', ''Subject is required''),
                    (''message'', ''Message must be at least 10 characters'')])"
    using E[THEN conjunct1] empty_contact_invalid f by simp
  have e: "''phone'' \<notin> set (keys (errors \<lparr>isValid = True, errors = []\<rparr>))"
    by (simp add: keys_def)
  have p2: "\<not> (length (replace_all NonDigit [] (js ''123-456-7890'')) < 10
         \<or> 15 < length (replace_all NonDigit [] (js ''123-456-7890'')))"
    using S[THEN conjunct2, THEN conjunct1] sample_contact_valid sample_contact_phone
      js_nonempty(1) e
    by blast
  have p3: "''phone'' \<in> set (keys (errors \<lparr>isValid = False,
             errors = [(''phone'', ''Invalid phone number length'')]\<rparr>))"
    using L[THEN conjunct2, THEN conjunct2, THEN conjunct2, THEN conjunct2]
      contact_long_phone sixteen_digits by simp
  have p4: "''phone'' \<in> set (keys (errors \<lparr>isValid = False,
             errors = [(''phone'', ''Invalid phone number length'')]\<rparr>))"
    using H[THEN conjunct2, THEN conjunct2, THEN conjunct2, THEN conjunct1]
      contact_short_phone by simp
  from p3 p4 have p5: "''phone'' \<in> set (keys [(''phone'', ''Invalid phone number length'')])"
    by simp
  from p1 p2 p5 f empty_contact_invalid sample_contact_valid sample_contact_phone js_nonempty(1)
    contact_short_phone contact_long_phone sixteen_digits
  show ?thesis by (intro conjI)
qed

lemma file_not_a_job_key:
  assumes v: "validateJobApplication d = Inr r"
  shows "''file'' \<notin> set (keys (errors r))"
  unfolding validateJobApplication_keys[OF v] by simp

lemma keys_file: "keys [(''file'', ''Resume is required'')] = [''file'']"
  by (simp add: keys_def)

text \<open>
  C5. On the job-application path the attachment is looked for only once the fields have
  passed: when the validator finds the fields valid and the request carries no file, the
  response is 400 and its errors mapping has the one key \<open>file\<close>; when the validator finds
  field errors, the response is 400 with exactly those errors, \<open>file\<close> not among them,
  whether or not a file is attached.
\<close>

theorem file_checked_after_fields:
  "(validateJobApplication (req_body req) = Inr v \<and> isValid v \<and> req_file req = None \<longrightarrow>
      (\<exists>es. res (post_job_application env tr req) = \<lparr>status = 400, json = Errors es\<rparr>
            \<and> keys es = [''file'']))
   \<and> (validateJobApplication (req_body req) = Inr v \<and> \<not> isValid v \<longrightarrow>
        res (post_job_application env tr req) = \<lparr>status = 400, json = Errors (errors v)\<rparr>
        \<and> errors v \<noteq> [] \<and> ''file'' \<notin> set (keys (errors v)))"
proof (intro conjI impI)
  assume a: "validateJobApplication (req_body req) = Inr v \<and> isValid v \<and> req_file req = None"
  then have "post_job_application env tr req =
       \<lparr>sent = [], res = \<lparr>status = 400, json = Errors [(''file'', ''Resume is required'')]\<rparr>\<rparr>"
    using post_job_application_no_file by blast
  then show "\<exists>es. res (post_job_application env tr req) = \<lparr>status = 400, json = Errors es\<rparr>
            \<and> keys es = [''file'']"
    using keys_file by simp
next
  assume a: "validateJobApplication (req_body req) = Inr v \<and> \<not> isValid v"
  then have "post_job_application env tr req =
       \<lparr>sent = [], res = \<lparr>status = 400, json = Errors (errors v)\<rparr>\<rparr>"
    using post_job_application_invalid by blast
  then show "res (post_job_application env tr req) = \<lparr>status = 400, json = Errors (errors v)\<rparr>"
    by simp
  from a show "errors v \<noteq> []"
    using validateJobApplication_isValid by blast
  from a show "''file'' \<notin> set (keys (errors v))"
    using file_not_a_job_key by blast
qed

theorem file_checked_after_fields_witness:
  "validateJobApplication sample_application = Inr \<lparr>isValid = True, errors = []\<rparr>
   \<and> (\<exists>es. res (post_job_application sample_env relay_up
                  \<lparr>req_body = sample_application, req_file = None\<rparr>)
             = \<lparr>status = 400, json = Errors es\<rparr> \<and> keys es = [''file''])
   \<and> validateJobApplication empty_object =
        Inr \<lparr>isValid = False,
             errors = [(''firstName'', ''First name is required''),
                       (''lastName'', ''Last name is required''),
                       (''email'', ''Valid email is required''),
                       (''phone'', ''Valid phone number is required'')]\<rparr>
   \<and> res (post_job_application sample_env relay_up
             \<lparr>req_body = empty_object, req_file = Some sample_resume\<rparr>)
       = \<lparr>status = 400,
          json = Errors [(''firstName'', ''First name is required''),
                         (''lastName'', ''Last name is required''),
                         (''email'', ''Valid email is required''),
                         (''phone'', ''Valid phone number is required'')]\<rparr>"
proof -
  note A = file_checked_after_fields[of "\<lparr>req_body = sample_application, req_file = None\<rparr>"
              "\<lparr>isValid = True, errors = []\<rparr>" sample_env relay_up]
  note B = file_checked_after_fields[of "\<lparr>req_body = empty_object, req_file = Some sample_resume\<rparr>"
              "\<lparr>isValid = False,
                errors = [(''firstName'', ''First name is required''),
                          (''lastName'', ''Last name is required''),
                          (''email'', ''Valid email is required''),
                          (''phone'', ''Valid phone number is required'')]\<rparr>" sample_env relay_up]
  have p1: "\<exists>es. res (post_job_application sample_env relay_up
                  \<lparr>req_body = sample_application, req_file = None\<rparr>)
             = \<lparr>status = 400, json = Errors es\<rparr> \<and> keys es = [''file'']"
    using A[THEN conjunct1] sample_application_valid by simp
  have p2: "res (post_job_application sample_env relay_up
             \<lparr>req_body = empty_object, req_file = Some sample_resume\<rparr>)
       = \<lparr>status = 400,
          json = Errors [(''firstName'', ''First name is required''),
                         (''lastName'', ''Last name is required''),
                         (''email'', ''Valid email is required''),
                         (''phone'', ''Valid phone number is required'')]\<rparr>"
    using B[THEN conjunct2] empty_application_invalid by simp
  from p1 p2 sample_application_valid empty_application_invalid show ?thesis
    by (intro conjI)
qed








lemma caught_status: "status (res (caught f ms e)) = 500"
  by (simp add: caught_def)

lemma caught_sent: "sent (caught f ms e) = ms"
  by (simp add: caught_def)

text \<open>
  Every way a request can end: caught before any send, refused with 400 and no send, or
  dispatched.
\<close>

lemma post_job_application_cases:
  obtains (thrown) e where
      "post_job_application env tr req =
         caught ''Failed to submit application. Please try again later.'' [] e"
  | (refused) es where
      "post_job_application env tr req = \<lparr>sent = [], res = \<lparr>status = 400, json = Errors es\<rparr>\<rparr>"
  | (dispatched) v f m a where
      "validateJobApplication (req_body req) = Inr v" "isValid v" "req_file req = Some f"
      "mailOptions env (req_body req) f = Inr m" "applicantMailOptions env (req_body req) = Inr a"
      "both_or_500 tr m a ''Failed to submit application. Please try again later.''
         (post_job_application env tr req)"
proof (cases "validateJobApplication (req_body req)")
  case (Inl e)
  then show ?thesis using thrown post_job_application_throw by blast
next
  case (Inr v)
  show ?thesis
  proof (cases "isValid v")
    case False
    with Inr show ?thesis using refused post_job_application_invalid by blast
  next
    case True
    show ?thesis
    proof (cases "req_file req")
      case None
      with Inr True show ?thesis using refused post_job_application_no_file by blast
    next
      case (Some f)
      show ?thesis
      proof (cases "mailOptions env (req_body req) f")
        case (Inl e)
        then show ?thesis
          using thrown post_job_application_compose_throw[OF Inr True Some] by blast
      next
        case m: (Inr m)
        show ?thesis
        proof (cases "applicantMailOptions env (req_body req)")
          case (Inl e)
          with m show ?thesis
            using thrown post_job_application_compose_throw[OF Inr True Some] by blast
        next
          case a: (Inr a)
          show ?thesis
            using dispatched[OF Inr True Some m a]
              post_job_application_dispatch[OF Inr True Some m a] by blast
        qed
      qed
    qed
  qed
qed

lemma contact_with_cases:
  obtains (thrown) e where
      "contact_with client env tr body =
         caught ''Failed to submit form. Please try again later.'' [] e"
  | (refused) es where
      "contact_with client env tr body = \<lparr>sent = [], res = \<lparr>status = 400, json = Errors es\<rparr>\<rparr>"
  | (dispatched) v c u where
      "validateFormInput body = Inr v" "isValid v"
      "client env body = Inr c" "userMailOptions env body = Inr u"
      "both_or_500 tr c u ''Failed to submit form. Please try again later.''
         (contact_with client env tr body)"
proof (cases "validateFormInput body")
  case (Inl e)
  then show ?thesis using thrown contact_with_throw by blast
next
  case (Inr v)
  show ?thesis
  proof (cases "isValid v")
    case False
    with Inr show ?thesis using refused contact_with_invalid by blast
  next
    case True
    show ?thesis
    proof (cases "client env body")
      case (Inl e)
      then show ?thesis
        using thrown contact_with_compose_throw[OF Inr True] by blast
    next
      case c: (Inr c)
      show ?thesis
      proof (cases "userMailOptions env body")
        case (Inl e)
        with c show ?thesis
          using thrown contact_with_compose_throw[OF Inr True] by blast
      next
        case u: (Inr u)
        show ?thesis
          using dispatched[OF Inr True c u]
            contact_with_dispatch[where client = client and env = env, OF Inr True c u]
          by blast
      qed
    qed
  qed
qed
















lemma opaque_title_valid:
  "validateJobApplication (sample_application(''jobTitle'' := JOpaque))
     = Inr \<lparr>isValid = True, errors = []\<rparr>"
  by code_simp

lemma job_compose_throw_500:
  assumes "validateJobApplication (req_body req) = Inr v" "isValid v" "req_file req = Some f"
    and "\<not> printable (req_body req ''jobTitle'') \<or> \<not> printable (req_body req ''jobLocation'')"
  shows "post_job_application env tr req =
           \<lparr>sent = [],
            res = \<lparr>status = 500,
                   json = Failure ''Failed to submit application. Please try again later.''
                            (message NoPrimitive)\<rparr>\<rparr>"
proof -
  have "mailOptions env (req_body req) f = Inl NoPrimitive"
    using assms(4) by (rule mailOptions_throw)
  then have "post_job_application env tr req =
           caught ''Failed to submit application. Please try again later.'' [] NoPrimitive"
    using post_job_application_compose_throw[OF assms(1,2,3)] by blast
  then show ?thesis by (simp add: caught_def)
qed

text \<open>
  C1, as the claim words it, fails: a job application that passes validation and has a
  file, but whose \<open>jobTitle\<close> is an object without string conversion (the multipart
  field \<^verbatim>\<open>jobTitle[x]\<close>), makes no dispatch call at all: building the notification throws,
  and the answer is 500 although the relay would have accepted every message.
\<close>

theorem unvalidated_title_no_dispatch_counterexample:
  "validateJobApplication (sample_application(''jobTitle'' := JOpaque))
     = Inr \<lparr>isValid = True, errors = []\<rparr>
   \<and> req_file \<lparr>req_body = sample_application(''jobTitle'' := JOpaque),
               req_file = Some sample_resume\<rparr> = Some sample_resume
   \<and> post_job_application sample_env relay_up
         \<lparr>req_body = sample_application(''jobTitle'' := JOpaque),
          req_file = Some sample_resume\<rparr> =
       \<lparr>sent = [],
        res = \<lparr>status = 500,
               json = Failure ''Failed to submit application. Please try again later.''
                        (message NoPrimitive)\<rparr>\<rparr>"
  using job_compose_throw_500[of
      "\<lparr>req_body = sample_application(''jobTitle'' := JOpaque), req_file = Some sample_resume\<rparr>"
      "\<lparr>isValid = True, errors = []\<rparr>" sample_resume sample_env relay_up]
    opaque_title_valid
  by simp

text \<open>
  C1, amended. A contact submission that passes validation, and a job application that
  passes validation, has a file and whose \<open>jobTitle\<close> and \<open>jobLocation\<close> (fields no rule
  looks at) have a string conversion, makes exactly two dispatch calls, the notification
  and then the acknowledgment. The handler answers 200 exactly when both sends succeed;
  when either fails it answers 500 with the fixed failure message and the error text of a
  failed send, and so never 200. A job application that passes validation with a file but
  whose \<open>jobTitle\<close> or \<open>jobLocation\<close> has no string conversion is answered 500 with the
  same failure message before any dispatch call.
\<close>

theorem two_sends_200_iff_both:
  "(validateJobApplication (req_body req) = Inr v \<and> isValid v \<and> req_file req = Some f
      \<and> printable (req_body req ''jobTitle'') \<and> printable (req_body req ''jobLocation'') \<longrightarrow>
      (\<exists>m a. mailOptions env (req_body req) f = Inr m
             \<and> applicantMailOptions env (req_body req) = Inr a
             \<and> both_or_500 tr m a ''Failed to submit application. Please try again later.''
                  (post_job_application env tr req)))
   \<and> (validateJobApplication (req_body req) = Inr v \<and> isValid v \<and> req_file req = Some f
        \<and> (\<not> printable (req_body req ''jobTitle'') \<or> \<not> printable (req_body req ''jobLocation''))
      \<longrightarrow>
        post_job_application env tr req =
           \<lparr>sent = [],
            res = \<lparr>status = 500,
                   json = Failure ''Failed to submit application. Please try again later.''
                            (message NoPrimitive)\<rparr>\<rparr>)
   \<and> (validateFormInput body = Inr v' \<and> isValid v' \<longrightarrow>
        (\<exists>c u. clientMailOptions env body = Inr c \<and> userMailOptions env body = Inr u
               \<and> both_or_500 tr c u ''Failed to submit form. Please try again later.''
                    (post_contact env tr body))
        \<and> (\<exists>c u. clientMailOptions_server_js env body = Inr c \<and> userMailOptions env body = Inr u
               \<and> both_or_500 tr c u ''Failed to submit form. Please try again later.''
                    (post_contact_server_js env tr body)))"
proof (intro conjI impI)
  assume a: "validateJobApplication (req_body req) = Inr v \<and> isValid v \<and> req_file req = Some f
      \<and> printable (req_body req ''jobTitle'') \<and> printable (req_body req ''jobLocation'')"
  then obtain m a where ma: "mailOptions env (req_body req) f = Inr m"
      "applicantMailOptions env (req_body req) = Inr a"
    using job_compose_ok by blast
  from a have "both_or_500 tr m a ''Failed to submit application. Please try again later.''
                  (post_job_application env tr req)"
    using post_job_application_dispatch[OF _ _ _ ma] by blast
  with ma show "\<exists>m a. mailOptions env (req_body req) f = Inr m
             \<and> applicantMailOptions env (req_body req) = Inr a
             \<and> both_or_500 tr m a ''Failed to submit application. Please try again later.''
                  (post_job_application env tr req)"
    by blast
next
  assume "validateJobApplication (req_body req) = Inr v \<and> isValid v \<and> req_file req = Some f
        \<and> (\<not> printable (req_body req ''jobTitle'') \<or> \<not> printable (req_body req ''jobLocation''))"
  then show "post_job_application env tr req =
           \<lparr>sent = [],
            res = \<lparr>status = 500,
                   json = Failure ''Failed to submit application. Please try again later.''
                            (message NoPrimitive)\<rparr>\<rparr>"
    using job_compose_throw_500 by blast
next
  assume a: "validateFormInput body = Inr v' \<and> isValid v'"
  then obtain c u where cu: "clientMailOptions env body = Inr c" "userMailOptions env body = Inr u"
    unfolding clientMailOptions_def using contact_compose_ok by blast
  from a have "both_or_500 tr c u ''Failed to submit form. Please try again later.''
                    (post_contact env tr body)"
    unfolding post_contact_def
    using contact_with_dispatch[where client = clientMailOptions, OF _ _ cu] by blast
  with cu show "\<exists>c u. clientMailOptions env body = Inr c \<and> userMailOptions env body = Inr u
               \<and> both_or_500 tr c u ''Failed to submit form. Please try again later.''
                    (post_contact env tr body)"
    by blast
next
  assume a: "validateFormInput body = Inr v' \<and> isValid v'"
  then obtain c u where cu: "clientMailOptions_server_js env body = Inr c"
      "userMailOptions env body = Inr u"
    unfolding clientMailOptions_server_js_def using contact_compose_ok by blast
  from a have "both_or_500 tr c u ''Failed to submit form. Please try again later.''
                    (post_contact_server_js env tr body)"
    unfolding post_contact_server_js_def
    using contact_with_dispatch[where client = clientMailOptions_server_js, OF _ _ cu] by blast
  with cu show "\<exists>c u. clientMailOptions_server_js env body = Inr c
               \<and> userMailOptions env body = Inr u
               \<and> both_or_500 tr c u ''Failed to submit form. Please try again later.''
                    (post_contact_server_js env tr body)"
    by blast
qed

lemma relay_up_sends: "sendMail relay_up m = Fulfilled"
  by (simp add: relay_up_def)

lemma relay_down_sends: "sendMail relay_down m = Rejected (js ''ECONNREFUSED'')"
  by (simp add: relay_down_def)

lemma relay_no_ack_client:
  "clientMailOptions env body = Inr c \<Longrightarrow> sendMail relay_no_ack c = Fulfilled"
  unfolding clientMailOptions_def
  by (simp add: relay_no_ack_def contact_notification_Inr(2))

lemma relay_no_ack_user:
  "userMailOptions env body = Inr u \<Longrightarrow> sendMail relay_no_ack u = Rejected (js ''EENVELOPE'')"
  by (simp add: relay_no_ack_def userMailOptions_Inr)

lemma sample_application_printable:
  "printable (sample_application ''jobTitle'')" "printable (sample_application ''jobLocation'')"
  by (simp_all add: sample_application_def object_of_def)

lemma both_or_500_failed:
  assumes "both_or_500 tr m a failure h" "sendMail tr m = Fulfilled" "sendMail tr a = Rejected x"
  shows "res h = \<lparr>status = 500, json = Failure failure x\<rparr>"
proof -
  from assms have "status (res h) = 500 \<and> json (res h) = Failure failure x"
    unfolding both_or_500_def by auto
  then show ?thesis by (cases "res h") simp
qed

lemma both_or_500_all_failed:
  assumes "both_or_500 tr m a failure h" "sendMail tr m = Rejected x" "sendMail tr a = Rejected x"
  shows "res h = \<lparr>status = 500, json = Failure failure x\<rparr>"
proof -
  from assms have "status (res h) = 500 \<and> json (res h) = Failure failure x"
    unfolding both_or_500_def by auto
  then show ?thesis by (cases "res h") simp
qed

lemma both_or_500_ok:
  assumes "both_or_500 tr m a failure h" "sendMail tr m = Fulfilled" "sendMail tr a = Fulfilled"
  shows "status (res h) = 200"
  using assms unfolding both_or_500_def by blast

theorem two_sends_200_iff_both_witness:
  "validateJobApplication sample_application = Inr \<lparr>isValid = True, errors = []\<rparr>
   \<and> printable (sample_application ''jobTitle'') \<and> printable (sample_application ''jobLocation'')
   \<and> (\<exists>m a. mailOptions sample_env sample_application sample_resume = Inr m
          \<and> applicantMailOptions sample_env sample_application = Inr a
          \<and> sent (post_job_application sample_env relay_up
                    \<lparr>req_body = sample_application, req_file = Some sample_resume\<rparr>) = [m, a])
   \<and> status (res (post_job_application sample_env relay_up
              \<lparr>req_body = sample_application, req_file = Some sample_resume\<rparr>)) = 200
   \<and> validateJobApplication (sample_application(''jobTitle'' := JOpaque))
       = Inr \<lparr>isValid = True, errors = []\<rparr>
   \<and> \<not> printable ((sample_application(''jobTitle'' := JOpaque)) ''jobTitle'')
   \<and> sent (post_job_application sample_env relay_up
             \<lparr>req_body = sample_application(''jobTitle'' := JOpaque),
              req_file = Some sample_resume\<rparr>) = []
   \<and> validateFormInput sample_contact = Inr \<lparr>isValid = True, errors = []\<rparr>
   \<and> (\<exists>c u. clientMailOptions sample_env sample_contact = Inr c
          \<and> userMailOptions sample_env sample_contact = Inr u
          \<and> sent (post_contact sample_env relay_no_ack sample_contact) = [c, u])
   \<and> res (post_contact sample_env relay_no_ack sample_contact)
       = \<lparr>status = 500,
          json = Failure ''Failed to submit form. Please try again later.'' (js ''EENVELOPE'')\<rparr>
   \<and> res (post_contact_server_js sample_env relay_down sample_contact)
       = \<lparr>status = 500,
          json = Failure ''Failed to submit form. Please try again later.'' (js ''ECONNREFUSED'')\<rparr>"
proof -
  note J = two_sends_200_iff_both[where
      req = "\<lparr>req_body = sample_application, req_file = Some sample_resume\<rparr>"
      and v = "\<lparr>isValid = True, errors = []\<rparr>" and f = sample_resume
      and env = sample_env and tr = relay_up, THEN conjunct1]
  note O = two_sends_200_iff_both[where
      req = "\<lparr>req_body = sample_application(''jobTitle'' := JOpaque),
               req_file = Some sample_resume\<rparr>"
      and v = "\<lparr>isValid = True, errors = []\<rparr>" and f = sample_resume
      and env = sample_env and tr = relay_up, THEN conjunct2, THEN conjunct1]
  note C = two_sends_200_iff_both[where body = sample_contact
      and v' = "\<lparr>isValid = True, errors = []\<rparr>"
      and env = sample_env and tr = relay_no_ack, THEN conjunct2, THEN conjunct2]
  note D = two_sends_200_iff_both[where body = sample_contact
      and v' = "\<lparr>isValid = True, errors = []\<rparr>"
      and env = sample_env and tr = relay_down, THEN conjunct2, THEN conjunct2]
  from J sample_application_valid sample_application_printable
  obtain m a where ma: "mailOptions sample_env sample_application sample_resume = Inr m"
      "applicantMailOptions sample_env sample_application = Inr a"
      "both_or_500 relay_up m a ''Failed to submit application. Please try again later.''
         (post_job_application sample_env relay_up
            \<lparr>req_body = sample_application, req_file = Some sample_resume\<rparr>)"
    by auto
  have j1: "\<exists>m a. mailOptions sample_env sample_application sample_resume = Inr m
          \<and> applicantMailOptions sample_env sample_application = Inr a
          \<and> sent (post_job_application sample_env relay_up
                    \<lparr>req_body = sample_application, req_file = Some sample_resume\<rparr>) = [m, a]"
    using ma(1,2) both_or_500_sent[OF ma(3)] by blast
  have j2: "status (res (post_job_application sample_env relay_up
              \<lparr>req_body = sample_application, req_file = Some sample_resume\<rparr>)) = 200"
    using both_or_500_ok[OF ma(3)] relay_up_sends by blast
  have np: "\<not> printable ((sample_application(''jobTitle'' := JOpaque)) ''jobTitle'')"
    by simp
  have "post_job_application sample_env relay_up
             \<lparr>req_body = sample_application(''jobTitle'' := JOpaque),
              req_file = Some sample_resume\<rparr> =
           \<lparr>sent = [],
            res = \<lparr>status = 500,
                   json = Failure ''Failed to submit application. Please try again later.''
                            (message NoPrimitive)\<rparr>\<rparr>"
    using O opaque_title_valid np by simp
  then have o: "sent (post_job_application sample_env relay_up
             \<lparr>req_body = sample_application(''jobTitle'' := JOpaque),
              req_file = Some sample_resume\<rparr>) = []"
    by simp
  from C sample_contact_valid
  obtain c u where cu: "clientMailOptions sample_env sample_contact = Inr c"
      "userMailOptions sample_env sample_contact = Inr u"
      "both_or_500 relay_no_ack c u ''Failed to submit form. Please try again later.''
         (post_contact sample_env relay_no_ack sample_contact)"
    by auto
  have c1: "\<exists>c u. clientMailOptions sample_env sample_contact = Inr c
          \<and> userMailOptions sample_env sample_contact = Inr u
          \<and> sent (post_contact sample_env relay_no_ack sample_contact) = [c, u]"
    using cu(1,2) both_or_500_sent[OF cu(3)] by blast
  have c2: "res (post_contact sample_env relay_no_ack sample_contact)
       = \<lparr>status = 500,
          json = Failure ''Failed to submit form. Please try again later.'' (js ''EENVELOPE'')\<rparr>"
    by (rule both_or_500_failed[OF cu(3) relay_no_ack_client[OF cu(1)] relay_no_ack_user[OF cu(2)]])
  from D sample_contact_valid
  obtain c' u' where cu': "both_or_500 relay_down c' u' ''Failed to submit form. Please try again later.''
         (post_contact_server_js sample_env relay_down sample_contact)"
    by auto
  have d2: "res (post_contact_server_js sample_env relay_down sample_contact)
       = \<lparr>status = 500,
          json = Failure ''Failed to submit form. Please try again later.'' (js ''ECONNREFUSED'')\<rparr>"
    by (rule both_or_500_all_failed[OF cu' relay_down_sends relay_down_sends])
  from j1 j2 np o c1 c2 d2 sample_application_valid sample_application_printable
    opaque_title_valid sample_contact_valid
  show ?thesis by (intro conjI)
qed

lemma sample_env_HR: "getenv sample_env ''HR_EMAIL'' = JStr (js ''hr@xemsoft.example'')"
  by (simp add: getenv_def sample_env_def)

lemma sample_env_CLIENT:
  "getenv sample_env ''CLIENT_EMAIL'' = JStr (js ''client@xemsoft.example'')"
  by (simp add: getenv_def sample_env_def)

lemma post_job_application_sent:
  "sent (post_job_application env tr req) = []
   \<or> (\<exists>f m a. req_file req = Some f
          \<and> mailOptions env (req_body req) f = Inr m
          \<and> applicantMailOptions env (req_body req) = Inr a
          \<and> sent (post_job_application env tr req) = [m, a])"
proof (cases rule: post_job_application_cases[of env tr req])
  case (thrown e)
  then show ?thesis by (simp add: caught_sent)
next
  case (refused es)
  then show ?thesis by simp
next
  case (dispatched v f m a)
  from both_or_500_sent[OF dispatched(6)] dispatched(3,4,5)
  show ?thesis by blast
qed

lemma contact_with_sent:
  "sent (contact_with client env tr body) = []
   \<or> (\<exists>c u. client env body = Inr c \<and> userMailOptions env body = Inr u
          \<and> sent (contact_with client env tr body) = [c, u])"
proof (cases rule: contact_with_cases[of client env tr body])
  case (thrown e)
  then show ?thesis by (simp add: caught_sent)
next
  case (refused es)
  then show ?thesis by simp
next
  case (dispatched v c u)
  from both_or_500_sent[OF dispatched(5)] dispatched(3,4)
  show ?thesis by blast
qed

lemma sample_contact_sent:
  "\<exists>c u. clientMailOptions sample_env sample_contact = Inr c
     \<and> userMailOptions sample_env sample_contact = Inr u
     \<and> sent (post_contact sample_env relay_up sample_contact) = [c, u]"
proof -
  obtain c u where cu: "clientMailOptions sample_env sample_contact = Inr c"
      "userMailOptions sample_env sample_contact = Inr u"
    using contact_compose_ok[OF sample_contact_valid] unfolding clientMailOptions_def by blast
  have "sent (contact_with clientMailOptions sample_env relay_up sample_contact) = [c, u]"
    by (rule both_or_500_sent[OF contact_with_dispatch[where client = clientMailOptions
              and env = sample_env, OF sample_contact_valid _ cu]]) simp
  with cu show ?thesis unfolding post_contact_def by blast
qed

text \<open>
  C3, as the claim words it, fails: the server that handles both endpoints copies the HR
  address on the contact notification as well.
\<close>

theorem contact_notification_has_cc_counterexample:
  "validateFormInput sample_contact = Inr \<lparr>isValid = True, errors = []\<rparr>
   \<and> getenv sample_env ''HR_EMAIL'' = JStr (js ''hr@xemsoft.example'')
   \<and> map cc (sent (post_contact sample_env relay_up sample_contact))
       = [Some (JStr (js ''hr@xemsoft.example'')), None]"
proof -
  obtain c u where cu: "clientMailOptions sample_env sample_contact = Inr c"
      "userMailOptions sample_env sample_contact = Inr u"
      "sent (post_contact sample_env relay_up sample_contact) = [c, u]"
    using sample_contact_sent by blast
  have "cc c = Some (getenv sample_env ''HR_EMAIL'')"
    using cu(1) unfolding clientMailOptions_def by (rule contact_notification_Inr(2))
  moreover have "cc u = None" using cu(2) by (rule userMailOptions_Inr(2))
  ultimately have "map cc (sent (post_contact sample_env relay_up sample_contact))
       = [Some (JStr (js ''hr@xemsoft.example'')), None]"
    unfolding cu(3) sample_env_HR by simp
  with sample_contact_valid sample_env_HR show ?thesis by (intro conjI)
qed

text \<open>
  C3, amended. Every internal notification goes to the configured client address. The
  job-application notification copies the configured HR address, and so does the contact
  notification of the server that handles both endpoints; the contact notification of
  \<^verbatim>\<open>src/server.js\<close>, the contact-only server, has no copy. The acknowledgments have none.
  This holds of every message the code composes, and these are the messages the handlers
  send: each handler sends either nothing or its notification followed by its
  acknowledgment.
\<close>

theorem notification_recipients:
  "(mailOptions env body f = Inr m \<longrightarrow>
      to m = getenv env ''CLIENT_EMAIL'' \<and> cc m = Some (getenv env ''HR_EMAIL''))
   \<and> (clientMailOptions env body = Inr c \<longrightarrow>
      to c = getenv env ''CLIENT_EMAIL'' \<and> cc c = Some (getenv env ''HR_EMAIL''))
   \<and> (clientMailOptions_server_js env body = Inr c' \<longrightarrow>
      to c' = getenv env ''CLIENT_EMAIL'' \<and> cc c' = None)
   \<and> (applicantMailOptions env body = Inr a \<longrightarrow> cc a = None)
   \<and> (userMailOptions env body = Inr u \<longrightarrow> cc u = None)
   \<and> (sent (post_job_application env tr req) = []
        \<or> (\<exists>f m a. req_file req = Some f
              \<and> mailOptions env (req_body req) f = Inr m
              \<and> applicantMailOptions env (req_body req) = Inr a
              \<and> sent (post_job_application env tr req) = [m, a]))
   \<and> (sent (post_contact env tr body) = []
        \<or> (\<exists>c u. clientMailOptions env body = Inr c \<and> userMailOptions env body = Inr u
              \<and> sent (post_contact env tr body) = [c, u]))
   \<and> (sent (post_contact_server_js env tr body) = []
        \<or> (\<exists>c u. clientMailOptions_server_js env body = Inr c
              \<and> userMailOptions env body = Inr u
              \<and> sent (post_contact_server_js env tr body) = [c, u]))"
proof (intro conjI impI)
  show "sent (post_job_application env tr req) = []
        \<or> (\<exists>f m a. req_file req = Some f
              \<and> mailOptions env (req_body req) f = Inr m
              \<and> applicantMailOptions env (req_body req) = Inr a
              \<and> sent (post_job_application env tr req) = [m, a])"
    by (rule post_job_application_sent)
  show "sent (post_contact env tr body) = []
        \<or> (\<exists>c u. clientMailOptions env body = Inr c \<and> userMailOptions env body = Inr u
              \<and> sent (post_contact env tr body) = [c, u])"
    unfolding post_contact_def by (rule contact_with_sent)
  show "sent (post_contact_server_js env tr body) = []
        \<or> (\<exists>c u. clientMailOptions_server_js env body = Inr c
              \<and> userMailOptions env body = Inr u
              \<and> sent (post_contact_server_js env tr body) = [c, u])"
    unfolding post_contact_server_js_def by (rule contact_with_sent)
next
  assume "mailOptions env body f = Inr m"
  then show "to m = getenv env ''CLIENT_EMAIL''" "cc m = Some (getenv env ''HR_EMAIL'')"
    by (rule mailOptions_Inr)+
next
  assume "clientMailOptions env body = Inr c"
  then show "to c = getenv env ''CLIENT_EMAIL''" "cc c = Some (getenv env ''HR_EMAIL'')"
    unfolding clientMailOptions_def by (rule contact_notification_Inr)+
next
  assume "clientMailOptions_server_js env body = Inr c'"
  then show "to c' = getenv env ''CLIENT_EMAIL''" "cc c' = None"
    unfolding clientMailOptions_server_js_def by (rule contact_notification_Inr)+
next
  assume "applicantMailOptions env body = Inr a"
  then show "cc a = None" by (rule applicantMailOptions_Inr)
next
  assume "userMailOptions env body = Inr u"
  then show "cc u = None" by (rule userMailOptions_Inr)
qed

theorem notification_recipients_witness:
  "\<exists>m c c'. mailOptions sample_env sample_application sample_resume = Inr m
     \<and> clientMailOptions sample_env sample_contact = Inr c
     \<and> clientMailOptions_server_js sample_env sample_contact = Inr c'
     \<and> to c = JStr (js ''client@xemsoft.example'')
     \<and> cc c = Some (JStr (js ''hr@xemsoft.example''))
     \<and> cc c' = None
     \<and> cc m = Some (JStr (js ''hr@xemsoft.example''))"
proof -
  obtain m where m: "mailOptions sample_env sample_application sample_resume = Inr m"
    using job_compose_ok[OF sample_application_valid sample_application_printable] by blast
  obtain c where c: "clientMailOptions sample_env sample_contact = Inr c"
    using contact_compose_ok[OF sample_contact_valid] unfolding clientMailOptions_def by blast
  obtain c' where c': "clientMailOptions_server_js sample_env sample_contact = Inr c'"
    using contact_compose_ok[OF sample_contact_valid] unfolding clientMailOptions_server_js_def
    by blast
  have 1: "cc m = Some (JStr (js ''hr@xemsoft.example''))"
    using notification_recipients[where env = sample_env and body = sample_application
        and f = sample_resume and m = m, THEN conjunct1] m
    unfolding sample_env_HR by blast
  note N = notification_recipients[where env = sample_env and body = sample_contact
        and c = c and c' = c', THEN conjunct2]
  have 2: "to c = JStr (js ''client@xemsoft.example'') \<and> cc c = Some (JStr (js ''hr@xemsoft.example''))"
    using N[THEN conjunct1] c unfolding sample_env_HR sample_env_CLIENT by blast
  have 3: "cc c' = None"
    using N[THEN conjunct2, THEN conjunct1] c' by blast
  from m c c' 1 2 3 show ?thesis by blast
qed

end
